theory Spec2Isabelle
  imports Main
begin

section \<open>JavaScript values\<close>

text \<open>
  The server is TypeScript running on a JavaScript engine. A value that is \<open>unknown\<close> to
  the type checker is modelled by \<open>jsv\<close>: the JSON values and \<open>undefined\<close>. An object holds
  its own enumerable properties in the order the engine enumerates them. Numbers are the
  integers (identifiers, counts, limits, HTTP status codes), meant within \<open>2^53\<close>, where
  every integer is a number of the engine; strings are lists of Isabelle characters, each
  read as one code unit.
\<close>

datatype jsv =
    JUndefined
  | JNull
  | JBool bool
  | JNum int
  | JStr string
  | JArr "jsv list"
  | JObj "(string \<times> jsv) list"

text \<open>What a \<open>throw\<close> carries. The three upstream failure classes come from
  \<open>utils/errors.ts\<close>; \<open>Error\<close>, \<open>TypeError\<close> and \<open>SyntaxError\<close> are the engine's.\<close>

datatype js_number = NaN | Finite int

datatype exn =
    Error string
  | TypeError string
  | SyntaxError string
  | GorgiasApiError string int
  | RateLimitError string js_number
  | AuthenticationError string

text \<open>Truthiness: \<open>undefined\<close>, \<open>null\<close>, \<open>false\<close>, \<open>0\<close> and the empty string are falsy.\<close>

fun truthy :: "jsv \<Rightarrow> bool" where
  "truthy JUndefined = False"
| "truthy JNull = False"
| "truthy (JBool b) = b"
| "truthy (JNum n) = (n \<noteq> 0)"
| "truthy (JStr s) = (s \<noteq> [])"
| "truthy (JArr xs) = True"
| "truthy (JObj kvs) = True"

fun nullish :: "jsv \<Rightarrow> bool" where
  "nullish JUndefined = True"
| "nullish JNull = True"
| "nullish v = False"

text \<open>\<open>Array.prototype.join\<close> on strings.\<close>

fun join :: "string \<Rightarrow> string list \<Rightarrow> string" where
  "join sep [] = []"
| "join sep [x] = x"
| "join sep (x # y # ys) = x @ sep @ join sep (y # ys)"

text \<open>Objects that throw \<open>TypeError\<close> messages word them as V8 does (the engine of the
  deployment platform).\<close>

definition cannot_read :: "jsv \<Rightarrow> string \<Rightarrow> exn" where
  "cannot_read v k =
     TypeError (''Cannot read properties of '' @ (if v = JNull then ''null'' else ''undefined'') @
                '' (reading '' @ [CHR 0x27] @ k @ [CHR 0x27] @ '')'')"

subsection \<open>Numbers as text\<close>

definition digit_char :: "nat \<Rightarrow> char" where
  "digit_char d = ''0123456789'' ! d"

function String_nat :: "nat \<Rightarrow> string" where
  "String_nat n = (if n < 10 then [digit_char n] else String_nat (n div 10) @ [digit_char (n mod 10)])"
  by pat_completeness auto
termination
  by (relation "measure id") auto

declare String_nat.simps [simp del]

text \<open>\<open>String(n)\<close> for an integer \<open>n\<close> within \<open>2^53\<close>: the decimal digits. The engine's
  numbers are doubles: a larger integer prints with its digits rounded, and from \<open>10^21\<close>
  in exponent form, which this definition does not follow; a statement that depends on
  the digits of a number is made for this range.\<close>

definition String_int :: "int \<Rightarrow> string" where
  "String_int i = (if i < 0 then CHR ''-'' # String_nat (nat (- i)) else String_nat (nat i))"

definition is_digit :: "char \<Rightarrow> bool" where
  "is_digit c = (c \<in> set ''0123456789'')"

definition digit_val :: "char \<Rightarrow> nat" where
  "digit_val c = of_char c - 48"

definition digits_val :: "string \<Rightarrow> nat" where
  "digits_val ds = foldl (\<lambda>acc c. 10 * acc + digit_val c) 0 ds"

text \<open>A property key that is an array index: decimal digits with no leading zero.\<close>

definition index_of_key :: "string \<Rightarrow> nat option" where
  "index_of_key k =
     (if k \<noteq> [] \<and> list_all is_digit k \<and> (k = ''0'' \<or> hd k \<noteq> CHR ''0'')
      then Some (digits_val k) else None)"

subsection \<open>Reading properties\<close>

text \<open>The own property \<open>k\<close> of a value that is neither \<open>null\<close> nor \<open>undefined\<close>, if it
  has one: the members of an object, the elements and \<open>length\<close> of an array, the
  characters and \<open>length\<close> of a string.\<close>

fun own_prop :: "jsv \<Rightarrow> string \<Rightarrow> jsv option" where
  "own_prop (JObj kvs) k = map_of kvs k"
| "own_prop (JArr xs) k =
     (if k = ''length'' then Some (JNum (int (length xs)))
      else case index_of_key k of
             Some i \<Rightarrow> if i < length xs then Some (xs ! i) else None
           | None \<Rightarrow> None)"
| "own_prop (JStr s) k =
     (if k = ''length'' then Some (JNum (int (length s)))
      else case index_of_key k of
             Some i \<Rightarrow> if i < length s then Some (JStr [s ! i]) else None
           | None \<Rightarrow> None)"
| "own_prop v k = None"

text \<open>\<open>v.k\<close> for one of the property names the source spells out. None of them names
  a member of a built-in prototype, so a missing own property reads as \<open>undefined\<close>.\<close>

definition get_prop :: "jsv \<Rightarrow> string \<Rightarrow> jsv" where
  "get_prop v k = (case own_prop v k of Some x \<Rightarrow> x | None \<Rightarrow> JUndefined)"

text \<open>\<open>v.k\<close> where \<open>v\<close> may be \<open>null\<close> or \<open>undefined\<close>: the read throws.\<close>

definition read_prop :: "jsv \<Rightarrow> string \<Rightarrow> exn + jsv" where
  "read_prop v k = (if nullish v then Inl (cannot_read v k) else Inr (get_prop v k))"

text \<open>\<open>v?.k\<close>.\<close>

definition opt_prop :: "jsv \<Rightarrow> string \<Rightarrow> jsv" where
  "opt_prop v k = (if nullish v then JUndefined else get_prop v k)"

text \<open>\<open>a || b\<close> and \<open>a ?? b\<close>.\<close>

definition or_js :: "jsv \<Rightarrow> jsv \<Rightarrow> jsv" where
  "or_js a b = (if truthy a then a else b)"

definition nullish_or :: "jsv \<Rightarrow> jsv \<Rightarrow> jsv" where
  "nullish_or a b = (if nullish a then b else a)"

text \<open>Sequencing of computations that may throw.\<close>

definition bind_exn :: "exn + 'a \<Rightarrow> ('a \<Rightarrow> exn + 'b) \<Rightarrow> exn + 'b" where
  "bind_exn m f = (case m of Inl e \<Rightarrow> Inl e | Inr x \<Rightarrow> f x)"

text \<open>A loop body run over a list, left to right; the first throw ends the loop.\<close>

fun collect :: "('a \<Rightarrow> exn + 'b) \<Rightarrow> 'a list \<Rightarrow> exn + 'b list" where
  "collect f [] = Inr []"
| "collect f (x # xs) =
     (case f x of
        Inl e \<Rightarrow> Inl e
      | Inr y \<Rightarrow> (case collect f xs of Inl e \<Rightarrow> Inl e | Inr ys \<Rightarrow> Inr (y # ys)))"

lemma collect_cong [fundef_cong]:
  "xs = ys \<Longrightarrow> (\<And>x. x \<in> set ys \<Longrightarrow> f x = g x) \<Longrightarrow> collect f xs = collect g ys"
  by (induction ys arbitrary: xs) (auto split: sum.splits)

subsection \<open>Conversion to string\<close>

text \<open>\<open>String(v)\<close>, which a template literal applies to each substitution. An array
  prints its elements joined by commas, \<open>null\<close> and \<open>undefined\<close> elements as the empty
  string. An object prints as \<open>[object Object]\<close> through the inherited \<open>toString\<close>; an
  own member named \<open>toString\<close> shadows it, is not callable, and the conversion throws.\<close>

definition not_primitive :: exn where
  "not_primitive = TypeError ''Cannot convert object to primitive value''"

fun toStr :: "jsv \<Rightarrow> exn + string" where
  "toStr JUndefined = Inr ''undefined''"
| "toStr JNull = Inr ''null''"
| "toStr (JBool b) = Inr (if b then ''true'' else ''false'')"
| "toStr (JNum n) = Inr (String_int n)"
| "toStr (JStr s) = Inr s"
| "toStr (JArr xs) =
     (case collect (\<lambda>x. if nullish x then Inr [] else toStr x) xs of
        Inl e \<Rightarrow> Inl e
      | Inr ss \<Rightarrow> Inr (join '','' ss))"
| "toStr (JObj kvs) =
     (if ''toString'' \<in> fst ` set kvs then Inl not_primitive else Inr ''[object Object]'')"

text \<open>A template literal: literal text and substitutions, converted left to right.\<close>

datatype piece = Lit string | Sub jsv

fun template :: "piece list \<Rightarrow> exn + string" where
  "template [] = Inr []"
| "template (Lit s # ps) = (case template ps of Inl e \<Rightarrow> Inl e | Inr r \<Rightarrow> Inr (s @ r))"
| "template (Sub v # ps) =
     (case toStr v of
        Inl e \<Rightarrow> Inl e
      | Inr s \<Rightarrow> (case template ps of Inl e \<Rightarrow> Inl e | Inr r \<Rightarrow> Inr (s @ r)))"

subsection \<open>What the model takes as given\<close>

text \<open>
  The engine's built-ins that the source calls and this theory does not define, and the
  one helper of \<open>utils/errors.ts\<close> that \<open>formatError\<close> calls:
  \<^item> \<open>btoa\<close>: base-64 encoding;
  \<^item> \<open>JSON_parse\<close>: \<open>JSON.parse\<close>; \<open>Inl\<close> holds the message of the \<open>SyntaxError\<close> thrown;
  \<^item> \<open>JSON_stringify n v\<close>: \<open>JSON.stringify(v, null, n)\<close> for \<open>v\<close> other than
    \<open>undefined\<close>;
  \<^item> \<open>Date_toISOString v\<close>: \<open>new Date(v).toISOString()\<close>, \<open>None\<close> when it throws;
  \<^item> \<open>StringToNumber\<close>: the numeric value of a string;
  \<^item> \<open>toUpperCase\<close>: \<open>String.prototype.toUpperCase\<close>;
  \<^item> \<open>proto_member v k\<close>: the text \<open>String(v[k])\<close> when \<open>k\<close> is no own property of
    \<open>v\<close> but a member of its prototype chain, \<open>None\<close> when it is neither;
  \<^item> \<open>formatErrorForLogging\<close>: the helper of \<open>utils/errors.ts\<close>.
\<close>

record runtime =
  btoa :: "string \<Rightarrow> string"
  JSON_parse :: "string \<Rightarrow> string + jsv"
  JSON_stringify :: "nat \<Rightarrow> jsv \<Rightarrow> string"
  Date_toISOString :: "jsv \<Rightarrow> string option"
  StringToNumber :: "string \<Rightarrow> js_number"
  toUpperCase :: "string \<Rightarrow> string"
  proto_member :: "jsv \<Rightarrow> string \<Rightarrow> string option"
  formatErrorForLogging :: "exn \<Rightarrow> jsv"

text \<open>\<open>JSON.stringify(v, null, n)\<close>: \<open>undefined\<close> for \<open>undefined\<close>, a string otherwise.\<close>

definition stringify :: "runtime \<Rightarrow> nat \<Rightarrow> jsv \<Rightarrow> string option" where
  "stringify rt n v = (if v = JUndefined then None else Some (JSON_stringify rt n v))"

section \<open>Tenant credentials (types/env.ts)\<close>

text \<open>The interface \<open>GorgiasCredentials\<close>. Its members are strings; in
  \<open>Partial<GorgiasCredentials>\<close> each is a string or \<open>undefined\<close>.\<close>

record 'a Credentials =
  domain :: 'a
  email :: 'a
  apiKey :: 'a

type_synonym GorgiasCredentials = "string Credentials"
type_synonym PartialCredentials = "string option Credentials"

text \<open>An inbound request: the path of its URL, its method, and \<open>headers.get\<close>, which
  answers \<open>null\<close> (here \<open>None\<close>) for a header the request does not carry.\<close>

record Request =
  pathname :: string
  http_method :: string
  headers_get :: "string \<Rightarrow> string option"

text \<open>\<open>headers.get(name) || undefined\<close>: \<open>null\<close> and the empty string both give
  \<open>undefined\<close>.\<close>

definition or_undefined :: "string option \<Rightarrow> string option" where
  "or_undefined h = (case h of None \<Rightarrow> None | Some s \<Rightarrow> if s = [] then None else Some s)"

definition parseGorgiasCredentials :: "Request \<Rightarrow> PartialCredentials" where
  "parseGorgiasCredentials request =
     \<lparr> domain = or_undefined (headers_get request ''X-Gorgias-Domain''),
       email = or_undefined (headers_get request ''X-Gorgias-Email''),
       apiKey = or_undefined (headers_get request ''X-Gorgias-API-Key'') \<rparr>"

text \<open>\<open>!credentials.domain\<close>: true for \<open>undefined\<close> and for the empty string.\<close>

definition falsy_member :: "string option \<Rightarrow> bool" where
  "falsy_member m = (case m of None \<Rightarrow> True | Some s \<Rightarrow> s = [])"

text \<open>The list \<open>missing\<close> after the three pushes.\<close>

definition missing_headers :: "PartialCredentials \<Rightarrow> string list" where
  "missing_headers credentials =
     (if falsy_member (domain credentials) then [''X-Gorgias-Domain''] else []) @
     (if falsy_member (email credentials) then [''X-Gorgias-Email''] else []) @
     (if falsy_member (apiKey credentials) then [''X-Gorgias-API-Key''] else [])"

text \<open>The function asserts \<open>credentials is GorgiasCredentials\<close>: when it returns, the
  caller goes on with the same object at the narrowed type.\<close>

definition member_string :: "string option \<Rightarrow> string" where
  "member_string m = (case m of None \<Rightarrow> [] | Some s \<Rightarrow> s)"

definition narrowed :: "PartialCredentials \<Rightarrow> GorgiasCredentials" where
  "narrowed credentials =
     \<lparr> domain = member_string (domain credentials),
       email = member_string (email credentials),
       apiKey = member_string (apiKey credentials) \<rparr>"

definition validateGorgiasCredentials :: "PartialCredentials \<Rightarrow> exn + GorgiasCredentials" where
  "validateGorgiasCredentials credentials =
     (let missing = missing_headers credentials in
      if length missing > 0
      then Inl (Error (''Missing required headers: '' @ join '', '' missing))
      else Inr (narrowed credentials))"

section \<open>Upstream failures (utils/errors.ts)\<close>

text \<open>\<open>error.message\<close>.\<close>

fun message_of :: "exn \<Rightarrow> string" where
  "message_of (Error m) = m"
| "message_of (TypeError m) = m"
| "message_of (SyntaxError m) = m"
| "message_of (GorgiasApiError m s) = m"
| "message_of (RateLimitError m r) = m"
| "message_of (AuthenticationError m) = m"

text \<open>Modelled from the spec: the class declarations of \<open>utils/errors.ts\<close> are not among
  the sources. The spec has rate-limit and authentication failures as classified upstream
  failures beside the generic one (so \<open>instanceof GorgiasApiError\<close> holds of all three),
  and "the failure is transient (rate-limit only, in the current taxonomy)".\<close>

fun instanceof_GorgiasApiError :: "exn \<Rightarrow> bool" where
  "instanceof_GorgiasApiError (GorgiasApiError m s) = True"
| "instanceof_GorgiasApiError (RateLimitError m r) = True"
| "instanceof_GorgiasApiError (AuthenticationError m) = True"
| "instanceof_GorgiasApiError e = False"

fun retryable :: "exn \<Rightarrow> bool" where
  "retryable (RateLimitError m r) = True"
| "retryable e = False"

section \<open>The request router (index.ts)\<close>

definition SERVER_NAME :: string where
  "SERVER_NAME = ''primrose-mcp-gorgias''"

definition SERVER_VERSION :: string where
  "SERVER_VERSION = ''1.0.0''"

text \<open>A \<open>Response\<close> the worker builds itself. The status is 200 unless given.\<close>

record WorkerResponse =
  resp_status :: nat
  resp_content_type :: "string option"
  resp_body :: string

text \<open>What \<open>fetch\<close> ends with: a response of its own, or the protocol runtime's handler
  run on a server that \<open>createStatelessServer\<close> built for the credentials. Only the
  second builds a client and registers tools.\<close>

datatype fetch_result =
    Responded WorkerResponse
  | Delegated GorgiasCredentials

definition tool_names :: "string list" where
  "tool_names =
     [''gorgias_test_connection'', ''gorgias_get_account'', ''gorgias_get_statistics'',
      ''gorgias_list_tickets'', ''gorgias_get_ticket'', ''gorgias_create_ticket'',
      ''gorgias_update_ticket'', ''gorgias_delete_ticket'', ''gorgias_add_ticket_tags'',
      ''gorgias_remove_ticket_tags'', ''gorgias_list_messages'', ''gorgias_get_message'',
      ''gorgias_create_message'', ''gorgias_delete_message'', ''gorgias_list_customers'',
      ''gorgias_get_customer'', ''gorgias_create_customer'', ''gorgias_update_customer'',
      ''gorgias_delete_customer'', ''gorgias_merge_customers'', ''gorgias_list_users'',
      ''gorgias_get_user'', ''gorgias_list_teams'', ''gorgias_get_team'', ''gorgias_create_team'',
      ''gorgias_update_team'', ''gorgias_delete_team'', ''gorgias_list_tags'', ''gorgias_get_tag'',
      ''gorgias_create_tag'', ''gorgias_update_tag'', ''gorgias_delete_tag'', ''gorgias_merge_tags'',
      ''gorgias_list_macros'', ''gorgias_get_macro'', ''gorgias_create_macro'',
      ''gorgias_update_macro'', ''gorgias_delete_macro'', ''gorgias_list_rules'',
      ''gorgias_get_rule'', ''gorgias_create_rule'', ''gorgias_update_rule'',
      ''gorgias_delete_rule'', ''gorgias_list_integrations'', ''gorgias_get_integration'',
      ''gorgias_create_integration'', ''gorgias_update_integration'',
      ''gorgias_delete_integration'', ''gorgias_list_views'', ''gorgias_get_view'',
      ''gorgias_create_view'', ''gorgias_update_view'', ''gorgias_delete_view'',
      ''gorgias_list_view_items'', ''gorgias_list_satisfaction_surveys'',
      ''gorgias_get_satisfaction_survey'', ''gorgias_create_satisfaction_survey'',
      ''gorgias_list_custom_fields'', ''gorgias_get_custom_field'',
      ''gorgias_create_custom_field'', ''gorgias_update_custom_field'', ''gorgias_list_events'',
      ''gorgias_get_event'', ''gorgias_list_jobs'', ''gorgias_get_job'', ''gorgias_create_job'',
      ''gorgias_cancel_job'', ''gorgias_list_widgets'', ''gorgias_get_widget'',
      ''gorgias_create_widget'', ''gorgias_update_widget'', ''gorgias_delete_widget'']"

text \<open>The object of the default response.\<close>

definition service_info :: jsv where
  "service_info =
     JObj [(''name'', JStr SERVER_NAME),
           (''version'', JStr SERVER_VERSION),
           (''description'', JStr ''Gorgias Helpdesk MCP Server - Multi-tenant''),
           (''endpoints'',
              JObj [(''mcp'', JStr ''/mcp (POST) - Streamable HTTP MCP endpoint''),
                    (''health'', JStr ''/health - Health check'')]),
           (''authentication'',
              JObj [(''description'', JStr ''Pass tenant credentials via request headers''),
                    (''required_headers'',
                       JObj [(''X-Gorgias-Domain'',
                                JStr (''Your Gorgias subdomain (e.g., '' @ [CHR 0x22] @ ''mycompany'' @
                                      [CHR 0x22] @ '' for mycompany.gorgias.com)'')),
                             (''X-Gorgias-Email'', JStr ''Your Gorgias account email''),
                             (''X-Gorgias-API-Key'', JStr ''Your Gorgias API key'')])]),
           (''tools'', JArr (map JStr tool_names))]"

text \<open>The body of the 401 response; \<open>error\<close> is what \<open>validateGorgiasCredentials\<close>
  threw, always an \<open>Error\<close>.\<close>

definition unauthorized_body :: "exn \<Rightarrow> jsv" where
  "unauthorized_body error =
     JObj [(''error'', JStr ''Unauthorized''),
           (''message'', JStr (message_of error)),
           (''required_headers'',
              JArr [JStr ''X-Gorgias-Domain'', JStr ''X-Gorgias-Email'', JStr ''X-Gorgias-API-Key''])]"

definition fetch :: "runtime \<Rightarrow> Request \<Rightarrow> fetch_result" where
  "fetch rt request =
     (if pathname request = ''/health''
      then Responded \<lparr> resp_status = 200, resp_content_type = Some ''application/json'',
             resp_body = JSON_stringify rt 0
               (JObj [(''status'', JStr ''ok''), (''server'', JStr SERVER_NAME)]) \<rparr>
      else if pathname request = ''/mcp'' \<and> http_method request = ''POST''
      then (let credentials = parseGorgiasCredentials request in
            case validateGorgiasCredentials credentials of
              Inl error \<Rightarrow>
                Responded \<lparr> resp_status = 401, resp_content_type = Some ''application/json'',
                  resp_body = JSON_stringify rt 0 (unauthorized_body error) \<rparr>
            | Inr valid \<Rightarrow> Delegated valid)
      else if pathname request = ''/sse''
      then Responded \<lparr> resp_status = 501, resp_content_type = None,
             resp_body = ''SSE endpoint requires Durable Objects. Enable in wrangler.jsonc.'' \<rparr>
      else Responded \<lparr> resp_status = 200, resp_content_type = Some ''application/json'',
             resp_body = JSON_stringify rt 0 service_info \<rparr>)"

section \<open>Pagination helpers (utils/pagination.ts)\<close>

record PaginationParams =
  limit :: "int option"
  cursor :: "string option"

definition PAGINATION_DEFAULTS_limit :: int where
  "PAGINATION_DEFAULTS_limit = 20"

definition PAGINATION_DEFAULTS_maxLimit :: int where
  "PAGINATION_DEFAULTS_maxLimit = 100"

text \<open>\<open>params?.limit || PAGINATION_DEFAULTS.limit\<close>: the default stands in for a missing
  \<open>params\<close>, a missing limit and the limit 0.\<close>

definition limit_or_default :: "PaginationParams option \<Rightarrow> int" where
  "limit_or_default params =
     (case params of
        None \<Rightarrow> PAGINATION_DEFAULTS_limit
      | Some p \<Rightarrow> (case limit p of
                    None \<Rightarrow> PAGINATION_DEFAULTS_limit
                  | Some n \<Rightarrow> if n = 0 then PAGINATION_DEFAULTS_limit else n))"

text \<open>The result has a limit always; the second argument defaults to
  \<open>PAGINATION_DEFAULTS.maxLimit\<close> at the call.\<close>

definition normalizePaginationParams :: "PaginationParams option \<Rightarrow> int \<Rightarrow> PaginationParams" where
  "normalizePaginationParams params maxLimit =
     \<lparr> limit = Some (min (limit_or_default params) maxLimit),
       cursor = (case params of None \<Rightarrow> None | Some p \<Rightarrow> cursor p) \<rparr>"

section \<open>The upstream client (client.ts)\<close>

subsection \<open>The single request path\<close>

text \<open>What \<open>fetch\<close> is called with and what it resolves to. The endpoint of the source is a
  path followed, for most list operations, by \<open>?\<close> and a \<open>URLSearchParams\<close>; the model
  keeps the parameters as the list of pairs the source sets, \<open>None\<close> when the endpoint has
  no query part.\<close>

record http_request =
  req_url :: string
  req_query :: "(string \<times> string) list option"
  req_method :: "string option"
  req_headers :: "(string \<times> string) list"
  req_body :: "string option"

record http_response =
  up_status :: nat
  up_header :: "string \<Rightarrow> string option"
  up_body :: string

text \<open>The upstream service as the client sees it: \<open>fetch\<close> resolves to a response or
  rejects.\<close>

type_synonym upstream = "http_request \<Rightarrow> exn + http_response"

text \<open>Every call of \<open>fetch\<close> is recorded, in order.\<close>

type_synonym calls = "http_request list"

record request_options =
  opt_method :: "string option"
  opt_body :: "string option"

definition no_options :: request_options where
  "no_options = \<lparr> opt_method = None, opt_body = None \<rparr>"

definition getBaseUrl :: "GorgiasCredentials \<Rightarrow> string" where
  "getBaseUrl credentials = ''https://'' @ domain credentials @ ''.gorgias.com/api''"

definition getAuthHeaders :: "runtime \<Rightarrow> GorgiasCredentials \<Rightarrow> (string \<times> string) list" where
  "getAuthHeaders rt credentials =
     [(''Authorization'', ''Basic '' @ btoa rt (email credentials @ '':'' @ apiKey credentials)),
      (''Content-Type'', ''application/json'')]"

text \<open>\<open>parseInt(s, 10)\<close>: leading white space, an optional sign, then the longest run of
  decimal digits; \<open>NaN\<close> when there is no digit. The value of the digits is exact here; the
  engine rounds one beyond \<open>2^53\<close> to a double, so a statement on the number parsed is
  made for results within \<open>2^53\<close>.\<close>

definition is_space :: "char \<Rightarrow> bool" where
  "is_space c = (of_char c \<in> {9, 10, 11, 12, 13, 32, 160 :: nat})"

definition parseInt10 :: "string \<Rightarrow> js_number" where
  "parseInt10 s =
     (let t = dropWhile is_space s;
          negative = (t \<noteq> [] \<and> hd t = CHR ''-'');
          u = (if t \<noteq> [] \<and> (hd t = CHR ''-'' \<or> hd t = CHR ''+'') then tl t else t);
          ds = takeWhile is_digit u
      in if ds = [] then NaN
         else Finite (if negative then - int (digits_val ds) else int (digits_val ds)))"

text \<open>\<open>response.ok\<close>.\<close>

definition response_ok :: "http_response \<Rightarrow> bool" where
  "response_ok response = (200 \<le> up_status response \<and> up_status response \<le> 299)"

text \<open>The message of the generic failure: \<open>errorJson.message || errorJson.error ||
  message\<close> inside \<open>try\<close>, where a body that does not parse, and a body that parses to
  \<open>null\<close> (the property read throws), leave the default. The \<open>Error\<close> constructor turns
  what it is given into a string.\<close>

definition error_message :: "runtime \<Rightarrow> http_response \<Rightarrow> jsv" where
  "error_message rt response =
     (let message = JStr (''API error: '' @ String_nat (up_status response)) in
      case JSON_parse rt (up_body response) of
        Inl syntax \<Rightarrow> message
      | Inr errorJson \<Rightarrow>
          if nullish errorJson then message
          else or_js (or_js (get_prop errorJson ''message'') (get_prop errorJson ''error'')) message)"

text \<open>The part of \<open>request\<close> after \<open>await fetch\<close>: the status is classified before any
  body is read.\<close>

definition on_response :: "runtime \<Rightarrow> http_response \<Rightarrow> exn + jsv" where
  "on_response rt response =
     (if up_status response = 429
      then (let retryAfter = up_header response ''Retry-After'' in
            Inl (RateLimitError ''Rate limit exceeded''
                   (case retryAfter of
                      None \<Rightarrow> Finite 60
                    | Some h \<Rightarrow> if h \<noteq> [] then parseInt10 h else Finite 60)))
      else if up_status response = 401 \<or> up_status response = 403
      then Inl (AuthenticationError ''Authentication failed. Check your Gorgias credentials.'')
      else if \<not> response_ok response
      then (case toStr (error_message rt response) of
              Inl e \<Rightarrow> Inl e
            | Inr message \<Rightarrow> Inl (GorgiasApiError message (int (up_status response))))
      else if up_status response = 204
      then Inr JUndefined
      else (case JSON_parse rt (up_body response) of
              Inl syntax \<Rightarrow> Inl (SyntaxError syntax)
            | Inr v \<Rightarrow> Inr v))"

text \<open>\<open>request\<close>: one call of \<open>fetch\<close>, then the classification. No caller passes headers
  of its own.\<close>

definition request ::
  "runtime \<Rightarrow> upstream \<Rightarrow> GorgiasCredentials \<Rightarrow> string \<times> (string \<times> string) list option \<Rightarrow>
   request_options \<Rightarrow> calls \<Rightarrow> (exn + jsv) \<times> calls" where
  "request rt up credentials endpoint options log =
     (let call = \<lparr> req_url = getBaseUrl credentials @ fst endpoint,
                    req_query = snd endpoint,
                    req_method = opt_method options,
                    req_headers = getAuthHeaders rt credentials,
                    req_body = opt_body options \<rparr>
      in case up call of
           Inl e \<Rightarrow> (Inl e, log @ [call])
         | Inr response \<Rightarrow> (on_response rt response, log @ [call]))"

subsection \<open>Wire shape to internal shape\<close>

text \<open>
  A mapping function of the source returns an object literal, each member of which reads
  one member of \<open>raw\<close>. The model writes the literal as a table in the order of the source:
  \<open>Copy i w\<close> is the member \<open>i: raw.w\<close>; \<open>Each i w sub\<close> is \<open>i: raw.w.map(...)\<close>, the table
  \<open>sub\<close> applied to every element; \<open>Nested i w sub\<close> is \<open>i: {...}\<close>, the table \<open>sub\<close> applied to
  \<open>raw.w\<close>. Reading a member of \<open>null\<close> or \<open>undefined\<close> throws, and so does \<open>map\<close> on what
  is no array.
\<close>

datatype field =
    Copy string string
  | Each string string "field list"
  | Nested string string "field list"


fun wire_name :: "field \<Rightarrow> string" where
  "wire_name (Copy i w) = w"
| "wire_name (Each i w sub) = w"
| "wire_name (Nested i w sub) = w"

text \<open>The member read first: the one the \<open>TypeError\<close> names when \<open>raw\<close> is \<open>null\<close> or
  \<open>undefined\<close>.\<close>

definition first_read :: "field list \<Rightarrow> string" where
  "first_read fs = (case fs of [] \<Rightarrow> [] | f # rest \<Rightarrow> wire_name f)"

fun map_object :: "field list \<Rightarrow> jsv \<Rightarrow> exn + jsv"
  and map_field :: "jsv \<Rightarrow> field \<Rightarrow> exn + (string \<times> jsv)" where
  "map_object fs raw =
     (if nullish raw then Inl (cannot_read raw (first_read fs))
      else case collect (map_field raw) fs of
             Inl e \<Rightarrow> Inl e
           | Inr kvs \<Rightarrow> Inr (JObj kvs))"
| "map_field raw (Copy i w) = Inr (i, get_prop raw w)"
| "map_field raw (Each i w sub) =
     (case get_prop raw w of
        JArr xs \<Rightarrow> (case collect (map_object sub) xs of
                     Inl e \<Rightarrow> Inl e
                   | Inr ys \<Rightarrow> Inr (i, JArr ys))
      | v \<Rightarrow> if nullish v then Inl (cannot_read v ''map'')
             else Inl (TypeError (''raw.'' @ w @ ''.map is not a function'')))"
| "map_field raw (Nested i w sub) =
     (case map_object sub (get_prop raw w) of
        Inl e \<Rightarrow> Inl e
      | Inr v \<Rightarrow> Inr (i, v))"

definition Ticket_fields :: "field list" where
  "Ticket_fields =
     [Copy ''id'' ''id'', Copy ''externalId'' ''external_id'', Copy ''subject'' ''subject'',
      Copy ''status'' ''status'', Copy ''priority'' ''priority'', Copy ''channel'' ''channel'',
      Copy ''via'' ''via'', Copy ''fromAgent'' ''from_agent'', Copy ''customer'' ''customer'',
      Copy ''assigneeUser'' ''assignee_user'', Copy ''assigneeTeam'' ''assignee_team'',
      Copy ''messagesCount'' ''messages_count'', Copy ''isUnread'' ''is_unread'',
      Copy ''spamStatus'' ''spam'', Copy ''createdDatetime'' ''created_datetime'',
      Copy ''updatedDatetime'' ''updated_datetime'',
      Copy ''openedDatetime'' ''opened_datetime'', Copy ''closedDatetime'' ''closed_datetime'',
      Copy ''lastReceivedMessageDatetime'' ''last_received_message_datetime'',
      Copy ''lastMessageDatetime'' ''last_message_datetime'',
      Copy ''snoozeUntilDatetime'' ''snooze_datetime'', Copy ''tags'' ''tags'',
      Copy ''uri'' ''uri'']"

definition mapTicket :: "jsv \<Rightarrow> exn + jsv" where
  "mapTicket raw = map_object Ticket_fields raw"

text \<open>The literal of the callback in \<open>raw.attachments.map\<close>.\<close>

definition Attachment_fields :: "field list" where
  "Attachment_fields =
     [Copy ''url'' ''url'', Copy ''name'' ''name'', Copy ''size'' ''size'',
      Copy ''contentType'' ''content_type'']"

definition Message_fields :: "field list" where
  "Message_fields =
     [Copy ''id'' ''id'', Copy ''ticketId'' ''ticket_id'', Copy ''channel'' ''channel'',
      Copy ''via'' ''via'', Copy ''fromAgent'' ''from_agent'', Copy ''sender'' ''sender'',
      Copy ''receiver'' ''receiver'', Copy ''subject'' ''subject'',
      Copy ''bodyText'' ''body_text'', Copy ''bodyHtml'' ''body_html'',
      Copy ''strippedText'' ''stripped_text'', Copy ''strippedHtml'' ''stripped_html'',
      Copy ''publicHtml'' ''public_html'',
      Each ''attachments'' ''attachments'' Attachment_fields,
      Copy ''actions'' ''actions'', Copy ''headers'' ''headers'', Copy ''macroId'' ''macro_id'',
      Copy ''ruleId'' ''rule_id'', Copy ''integrationsData'' ''integrations'',
      Copy ''createdDatetime'' ''created_datetime'', Copy ''sentDatetime'' ''sent_datetime'',
      Copy ''failedDatetime'' ''failed_datetime'', Copy ''openedDatetime'' ''opened_datetime'',
      Copy ''uri'' ''uri'']"

definition mapMessage :: "jsv \<Rightarrow> exn + jsv" where
  "mapMessage raw = map_object Message_fields raw"

text \<open>\<open>{...mapTicket(raw), messages: raw.messages.map(mapMessage)}\<close>.\<close>

definition TicketWithMessages_fields :: "field list" where
  "TicketWithMessages_fields = Ticket_fields @ [Each ''messages'' ''messages'' Message_fields]"

definition mapTicketWithMessages :: "jsv \<Rightarrow> exn + jsv" where
  "mapTicketWithMessages raw = map_object TicketWithMessages_fields raw"

text \<open>The literal of the callback in \<open>raw.channels.map\<close>.\<close>

definition Channel_fields :: "field list" where
  "Channel_fields =
     [Copy ''id'' ''id'', Copy ''type'' ''type'', Copy ''address'' ''address'',
      Copy ''preferred'' ''preferred'', Copy ''createdDatetime'' ''created_datetime'']"

definition Customer_fields :: "field list" where
  "Customer_fields =
     [Copy ''id'' ''id'', Copy ''externalId'' ''external_id'', Copy ''email'' ''email'',
      Copy ''name'' ''name'', Copy ''firstname'' ''firstname'', Copy ''lastname'' ''lastname'',
      Copy ''note'' ''note'', Copy ''language'' ''language'', Copy ''timezone'' ''timezone'',
      Copy ''data'' ''data'',
      Each ''channels'' ''channels'' Channel_fields,
      Copy ''integrations'' ''integrations'', Copy ''meta'' ''meta'',
      Copy ''ticketsCount'' ''tickets_count'', Copy ''createdDatetime'' ''created_datetime'',
      Copy ''updatedDatetime'' ''updated_datetime'', Copy ''uri'' ''uri'']"

definition mapCustomer :: "jsv \<Rightarrow> exn + jsv" where
  "mapCustomer raw = map_object Customer_fields raw"

definition User_fields :: "field list" where
  "User_fields =
     [Copy ''id'' ''id'', Copy ''externalId'' ''external_id'', Copy ''email'' ''email'',
      Copy ''name'' ''name'', Copy ''firstname'' ''firstname'', Copy ''lastname'' ''lastname'',
      Copy ''role'' ''role'', Copy ''bio'' ''bio'', Copy ''active'' ''active'',
      Copy ''timezone'' ''timezone'', Copy ''language'' ''language'',
      Copy ''country'' ''country'', Copy ''meta'' ''meta'',
      Copy ''createdDatetime'' ''created_datetime'',
      Copy ''updatedDatetime'' ''updated_datetime'', Copy ''uri'' ''uri'']"

definition mapUser :: "jsv \<Rightarrow> exn + jsv" where
  "mapUser raw = map_object User_fields raw"

definition Team_fields :: "field list" where
  "Team_fields =
     [Copy ''id'' ''id'', Copy ''name'' ''name'', Copy ''description'' ''description'',
      Copy ''decoration'' ''decoration'', Copy ''members'' ''members'',
      Copy ''createdDatetime'' ''created_datetime'', Copy ''uri'' ''uri'']"

definition mapTeam :: "jsv \<Rightarrow> exn + jsv" where
  "mapTeam raw = map_object Team_fields raw"

definition Tag_fields :: "field list" where
  "Tag_fields =
     [Copy ''id'' ''id'', Copy ''name'' ''name'', Copy ''description'' ''description'',
      Copy ''decoration'' ''decoration'', Copy ''usage'' ''usage'',
      Copy ''createdDatetime'' ''created_datetime'',
      Copy ''deletedDatetime'' ''deleted_datetime'', Copy ''uri'' ''uri'']"

definition mapTag :: "jsv \<Rightarrow> exn + jsv" where
  "mapTag raw = map_object Tag_fields raw"

definition Macro_fields :: "field list" where
  "Macro_fields =
     [Copy ''id'' ''id'', Copy ''externalId'' ''external_id'', Copy ''name'' ''name'',
      Copy ''intent'' ''intent'', Copy ''language'' ''language'', Copy ''usage'' ''usage'',
      Copy ''actions'' ''actions'', Copy ''createdDatetime'' ''created_datetime'',
      Copy ''updatedDatetime'' ''updated_datetime'',
      Copy ''archivedDatetime'' ''archived_datetime'', Copy ''uri'' ''uri'']"

definition mapMacro :: "jsv \<Rightarrow> exn + jsv" where
  "mapMacro raw = map_object Macro_fields raw"

definition Rule_fields :: "field list" where
  "Rule_fields =
     [Copy ''id'' ''id'', Copy ''name'' ''name'', Copy ''description'' ''description'',
      Copy ''code'' ''code'', Copy ''codeAst'' ''code_ast'',
      Copy ''eventTypes'' ''event_types'', Copy ''priority'' ''priority'',
      Copy ''createdDatetime'' ''created_datetime'',
      Copy ''updatedDatetime'' ''updated_datetime'',
      Copy ''deactivatedDatetime'' ''deactivated_datetime'', Copy ''uri'' ''uri'']"

definition mapRule :: "jsv \<Rightarrow> exn + jsv" where
  "mapRule raw = map_object Rule_fields raw"

definition Integration_fields :: "field list" where
  "Integration_fields =
     [Copy ''id'' ''id'', Copy ''name'' ''name'', Copy ''type'' ''type'',
      Copy ''http'' ''http'', Copy ''createdDatetime'' ''created_datetime'',
      Copy ''updatedDatetime'' ''updated_datetime'', Copy ''managed'' ''managed'',
      Copy ''businessHoursId'' ''business_hours_id'', Copy ''uri'' ''uri'']"

definition mapIntegration :: "jsv \<Rightarrow> exn + jsv" where
  "mapIntegration raw = map_object Integration_fields raw"

definition View_fields :: "field list" where
  "View_fields =
     [Copy ''id'' ''id'', Copy ''name'' ''name'', Copy ''slug'' ''slug'',
      Copy ''filters'' ''filters'', Copy ''orderBy'' ''order_by'',
      Copy ''orderDir'' ''order_dir'', Copy ''visibility'' ''visibility'',
      Copy ''fields'' ''fields'', Copy ''decoration'' ''decoration'',
      Copy ''createdDatetime'' ''created_datetime'',
      Copy ''updatedDatetime'' ''updated_datetime'', Copy ''uri'' ''uri'']"

definition mapView :: "jsv \<Rightarrow> exn + jsv" where
  "mapView raw = map_object View_fields raw"

definition SatisfactionSurvey_fields :: "field list" where
  "SatisfactionSurvey_fields =
     [Copy ''id'' ''id'', Copy ''score'' ''score'', Copy ''bodyText'' ''body_text'',
      Copy ''customerId'' ''customer_id'', Copy ''ticketId'' ''ticket_id'',
      Copy ''meta'' ''meta'', Copy ''createdDatetime'' ''created_datetime'',
      Copy ''sentDatetime'' ''sent_datetime'', Copy ''scoredDatetime'' ''scored_datetime'',
      Copy ''shouldSendDatetime'' ''should_send_datetime'', Copy ''uri'' ''uri'']"

definition mapSatisfactionSurvey :: "jsv \<Rightarrow> exn + jsv" where
  "mapSatisfactionSurvey raw = map_object SatisfactionSurvey_fields raw"

definition CustomField_fields :: "field list" where
  "CustomField_fields =
     [Copy ''id'' ''id'', Copy ''externalId'' ''external_id'',
      Copy ''objectType'' ''object_type'', Copy ''label'' ''label'',
      Copy ''description'' ''description'', Copy ''priority'' ''priority'',
      Copy ''required'' ''required'', Copy ''managedType'' ''managed_type'',
      Copy ''definition'' ''definition'', Copy ''createdDatetime'' ''created_datetime'',
      Copy ''updatedDatetime'' ''updated_datetime'',
      Copy ''deactivatedDatetime'' ''deactivated_datetime'', Copy ''uri'' ''uri'']"

definition mapCustomField :: "jsv \<Rightarrow> exn + jsv" where
  "mapCustomField raw = map_object CustomField_fields raw"

definition Event_fields :: "field list" where
  "Event_fields =
     [Copy ''id'' ''id'', Copy ''context'' ''context'', Copy ''type'' ''type'',
      Copy ''objectId'' ''object_id'', Copy ''objectType'' ''object_type'',
      Copy ''userId'' ''user_id'', Copy ''data'' ''data'',
      Copy ''createdDatetime'' ''created_datetime'', Copy ''uri'' ''uri'']"

definition mapEvent :: "jsv \<Rightarrow> exn + jsv" where
  "mapEvent raw = map_object Event_fields raw"

definition Job_fields :: "field list" where
  "Job_fields =
     [Copy ''id'' ''id'', Copy ''type'' ''type'', Copy ''status'' ''status'',
      Copy ''params'' ''params'', Copy ''info'' ''info'',
      Copy ''scheduledDatetime'' ''scheduled_datetime'',
      Copy ''completedDatetime'' ''completed_datetime'',
      Copy ''createdDatetime'' ''created_datetime'',
      Copy ''updatedDatetime'' ''updated_datetime'', Copy ''uri'' ''uri'']"

definition mapJob :: "jsv \<Rightarrow> exn + jsv" where
  "mapJob raw = map_object Job_fields raw"

definition Widget_fields :: "field list" where
  "Widget_fields =
     [Copy ''id'' ''id'', Copy ''context'' ''context'', Copy ''template'' ''template'',
      Copy ''order'' ''order'', Copy ''integrationId'' ''integration_id'',
      Copy ''appId'' ''app_id'', Copy ''createdDatetime'' ''created_datetime'',
      Copy ''updatedDatetime'' ''updated_datetime'', Copy ''uri'' ''uri'']"

definition mapWidget :: "jsv \<Rightarrow> exn + jsv" where
  "mapWidget raw = map_object Widget_fields raw"




text \<open>The kinds of record that cross the wire: the seventeen entities, the ticket with
  its messages, and the three records embedded in a message, a customer and a statistic
  that have a literal of their own.\<close>

datatype entity_kind =
    Ticket | TicketWithMessages | Message | Attachment | Customer | Channel | User | Team
  | Tag | Macro | Rule | Integration | View | SatisfactionSurvey | CustomField | Event | Job
  | Widget | Account | Statistic | StatisticMeta




text \<open>
  Modelled from the spec: the source has no function from the internal shape of an entity
  back to its wire shape; its create and update operations write members of their input
  under wire names (\<open>body_members\<close> below). The spec's round-trip property speaks of
  "re-serialization to wire field names", and the spec has the translation to wire shape
  as "field renaming, dropping \<open>undefined\<close> fields". \<open>to_wire\<close> is that translation along
  the literal of a mapping function: each member of the internal record is written under
  the wire name the literal reads it from, the elements of a mapped array and a nested
  record are translated in turn, and a member that is \<open>undefined\<close> is dropped. What the
  wire shape and the internal shape of a kind are is not taken from the literal but from
  the declarations of the source, which follow.
\<close>

fun to_wire :: "field list \<Rightarrow> jsv \<Rightarrow> jsv"
  and wire_member :: "jsv \<Rightarrow> field \<Rightarrow> (string \<times> jsv) list" where
  "to_wire fs internal = JObj (concat (map (wire_member internal) fs))"
| "wire_member internal (Copy i w) =
     (case get_prop internal i of JUndefined \<Rightarrow> [] | v \<Rightarrow> [(w, v)])"
| "wire_member internal (Each i w sub) =
     (case get_prop internal i of
        JUndefined \<Rightarrow> []
      | JArr xs \<Rightarrow> [(w, JArr (map (to_wire sub) xs))]
      | v \<Rightarrow> [(w, v)])"
| "wire_member internal (Nested i w sub) =
     (case get_prop internal i of JUndefined \<Rightarrow> [] | v \<Rightarrow> [(w, to_wire sub v)])"

subsection \<open>Declared shapes (client.ts, types/entities.ts)\<close>

text \<open>
  The interface declarations of the source, as far as the names of the members and their
  nesting go. \<open>Leaf\<close> stands for a type that declares no members: a primitive, a union of
  literals, \<open>unknown\<close> or \<open>Record<string, ...>\<close>, with or without \<open>| null\<close>. \<open>Nullable t\<close>
  is \<open>t | null\<close> for a record or an array; \<open>ArrayOf t\<close> is \<open>t[]\<close> or \<open>Array<t>\<close>; \<open>RecordOf\<close> is an
  interface or an inline object type. A member has a name, is optional (\<open>?\<close>) or not, and
  has a type.
\<close>

datatype shape = Leaf | Nullable shape | ArrayOf shape | RecordOf "member_decl list"
  and member_decl = Member (member_name: string) (optional: bool) (member_type: shape)


text \<open>The \<open>Raw*\<close> interfaces of \<open>client.ts\<close>: the wire shape of each kind of record.\<close>






























































subsection \<open>List operations\<close>

text \<open>\<open>URLSearchParams.set\<close>: the first pair with the name takes the value and later ones
  go; a new name is appended.\<close>

fun set_param :: "string \<Rightarrow> string \<Rightarrow> (string \<times> string) list \<Rightarrow> (string \<times> string) list" where
  "set_param k v [] = [(k, v)]"
| "set_param k v ((k', v') # q) =
     (if k' = k then (k, v) # filter (\<lambda>kv. fst kv \<noteq> k) q else (k', v') # set_param k v q)"

text \<open>The lines \<open>if (params?.p) queryParams.set(q, String(params.p))\<close> of a list operation,
  as the table of the pairs \<open>(p, q)\<close> in the order of the source. A parameter is forwarded
  when it is truthy, as the string it converts to.\<close>

fun build_query ::
  "(string \<times> string) list \<Rightarrow> jsv \<Rightarrow> (string \<times> string) list \<Rightarrow> exn + (string \<times> string) list" where
  "build_query [] params q = Inr q"
| "build_query ((p, name) # rest) params q =
     (if truthy (opt_prop params p)
      then (case toStr (opt_prop params p) of
              Inl e \<Rightarrow> Inl e
            | Inr v \<Rightarrow> build_query rest params (set_param name v q))
      else build_query rest params q)"

text \<open>\<open>v.map(f)\<close>, where the source spells \<open>v\<close> as \<open>expr\<close>.\<close>

definition array_map :: "string \<Rightarrow> (jsv \<Rightarrow> exn + jsv) \<Rightarrow> jsv \<Rightarrow> exn + jsv" where
  "array_map expr f v =
     (case v of
        JArr xs \<Rightarrow> (case collect f xs of Inl e \<Rightarrow> Inl e | Inr ys \<Rightarrow> Inr (JArr ys))
      | _ \<Rightarrow> if nullish v then Inl (cannot_read v ''map'')
             else Inl (TypeError (expr @ ''.map is not a function'')))"

text \<open>\<open>{ items: data.data.map(f), nextCursor: data.meta?.next_cursor }\<close>.\<close>

definition paginated :: "(jsv \<Rightarrow> exn + jsv) \<Rightarrow> jsv \<Rightarrow> exn + jsv" where
  "paginated f data =
     (if nullish data then Inl (cannot_read data ''data'')
      else case array_map ''data.data'' f (get_prop data ''data'') of
             Inl e \<Rightarrow> Inl e
           | Inr items \<Rightarrow>
               Inr (JObj [(''items'', items),
                          (''nextCursor'', opt_prop (get_prop data ''meta'') ''next_cursor'')]))"

text \<open>\<open>data.data.map(f)\<close>.\<close>

definition unpaginated :: "(jsv \<Rightarrow> exn + jsv) \<Rightarrow> jsv \<Rightarrow> exn + jsv" where
  "unpaginated f data =
     (if nullish data then Inl (cannot_read data ''data'')
      else array_map ''data.data'' f (get_prop data ''data''))"

text \<open>A \<open>GET\<close> of \<open>path?query\<close> with the query built from \<open>params\<close>, then \<open>shape\<close> on the
  decoded body.\<close>

definition list_with_query ::
  "runtime \<Rightarrow> upstream \<Rightarrow> GorgiasCredentials \<Rightarrow> string \<Rightarrow> (string \<times> string) list \<Rightarrow>
   (jsv \<Rightarrow> exn + jsv) \<Rightarrow> jsv \<Rightarrow> calls \<Rightarrow> (exn + jsv) \<times> calls" where
  "list_with_query rt up credentials path table shape params log =
     (case build_query table params [] of
        Inl e \<Rightarrow> (Inl e, log)
      | Inr queryParams \<Rightarrow>
          (case request rt up credentials (path, Some queryParams) no_options log of
             (Inl e, log') \<Rightarrow> (Inl e, log')
           | (Inr data, log') \<Rightarrow> (shape data, log')))"

text \<open>A \<open>GET\<close> of \<open>path\<close>, then \<open>shape\<close> on the decoded body.\<close>

definition list_plain ::
  "runtime \<Rightarrow> upstream \<Rightarrow> GorgiasCredentials \<Rightarrow> string \<Rightarrow> (jsv \<Rightarrow> exn + jsv) \<Rightarrow> calls \<Rightarrow>
   (exn + jsv) \<times> calls" where
  "list_plain rt up credentials path shape log =
     (case request rt up credentials (path, None) no_options log of
        (Inl e, log') \<Rightarrow> (Inl e, log')
      | (Inr data, log') \<Rightarrow> (shape data, log'))"

definition listTickets where
  "listTickets rt up credentials params log =
     list_with_query rt up credentials ''/tickets''
       [(''limit'', ''limit''), (''cursor'', ''cursor''), (''status'', ''status''),
        (''channel'', ''channel''), (''assigneeUserId'', ''assignee_user_id''),
        (''assigneeTeamId'', ''assignee_team_id''), (''customerId'', ''customer_id''),
        (''createdDatetimeAfter'', ''created_datetime_after''),
        (''createdDatetimeBefore'', ''created_datetime_before''),
        (''updatedDatetimeAfter'', ''updated_datetime_after''),
        (''updatedDatetimeBefore'', ''updated_datetime_before''),
        (''orderBy'', ''order_by'')]
       (paginated mapTicket) params log"

definition listMessages where
  "listMessages rt up credentials params log =
     list_with_query rt up credentials ''/messages''
       [(''limit'', ''limit''), (''cursor'', ''cursor''), (''ticketId'', ''ticket_id'')]
       (paginated mapMessage) params log"

definition listCustomers where
  "listCustomers rt up credentials params log =
     list_with_query rt up credentials ''/customers''
       [(''limit'', ''limit''), (''cursor'', ''cursor''), (''email'', ''email'')]
       (paginated mapCustomer) params log"

definition listUsers where
  "listUsers rt up credentials params log =
     list_with_query rt up credentials ''/users''
       [(''limit'', ''limit''), (''cursor'', ''cursor'')]
       (paginated mapUser) params log"

definition listTeams where
  "listTeams rt up credentials log =
     list_plain rt up credentials ''/teams'' (unpaginated mapTeam) log"

definition listTags where
  "listTags rt up credentials log =
     list_plain rt up credentials ''/tags'' (unpaginated mapTag) log"

definition listMacros where
  "listMacros rt up credentials params log =
     list_with_query rt up credentials ''/macros''
       [(''limit'', ''limit''), (''cursor'', ''cursor'')]
       (paginated mapMacro) params log"

definition listRules where
  "listRules rt up credentials params log =
     list_with_query rt up credentials ''/rules''
       [(''limit'', ''limit''), (''cursor'', ''cursor'')]
       (paginated mapRule) params log"

definition listIntegrations where
  "listIntegrations rt up credentials log =
     list_plain rt up credentials ''/integrations'' (unpaginated mapIntegration) log"

definition listViews where
  "listViews rt up credentials log =
     list_plain rt up credentials ''/views'' (unpaginated mapView) log"

definition listViewItems where
  "listViewItems rt up credentials viewId params log =
     list_with_query rt up credentials (''/views/'' @ String_int viewId @ ''/items'')
       [(''limit'', ''limit''), (''cursor'', ''cursor'')]
       (paginated mapTicket) params log"

definition listSatisfactionSurveys where
  "listSatisfactionSurveys rt up credentials params log =
     list_with_query rt up credentials ''/satisfaction-surveys''
       [(''limit'', ''limit''), (''cursor'', ''cursor''), (''ticketId'', ''ticket_id''),
        (''customerId'', ''customer_id'')]
       (paginated mapSatisfactionSurvey) params log"

definition listCustomFields where
  "listCustomFields rt up credentials params log =
     list_with_query rt up credentials ''/custom-fields''
       [(''objectType'', ''object_type'')]
       (unpaginated mapCustomField) params log"

definition listEvents where
  "listEvents rt up credentials params log =
     list_with_query rt up credentials ''/events''
       [(''limit'', ''limit''), (''cursor'', ''cursor''), (''objectType'', ''object_type''),
        (''objectId'', ''object_id''), (''type'', ''type'')]
       (paginated mapEvent) params log"

definition listJobs where
  "listJobs rt up credentials params log =
     list_with_query rt up credentials ''/jobs''
       [(''limit'', ''limit''), (''cursor'', ''cursor'')]
       (paginated mapJob) params log"

definition listWidgets where
  "listWidgets rt up credentials log =
     list_plain rt up credentials ''/widgets'' (unpaginated mapWidget) log"

text \<open>The list operations of the client interface, to speak of all of them at once.\<close>

datatype list_op =
    ListTickets | ListMessages | ListCustomers | ListUsers | ListTeams | ListTags
  | ListMacros | ListRules | ListIntegrations | ListViews | ListViewItems int
  | ListSatisfactionSurveys | ListCustomFields | ListEvents | ListJobs | ListWidgets

fun list_operation ::
  "list_op \<Rightarrow> runtime \<Rightarrow> upstream \<Rightarrow> GorgiasCredentials \<Rightarrow> jsv \<Rightarrow> calls \<Rightarrow> (exn + jsv) \<times> calls" where
  "list_operation ListTickets rt up c params log = listTickets rt up c params log"
| "list_operation ListMessages rt up c params log = listMessages rt up c params log"
| "list_operation ListCustomers rt up c params log = listCustomers rt up c params log"
| "list_operation ListUsers rt up c params log = listUsers rt up c params log"
| "list_operation ListTeams rt up c params log = listTeams rt up c log"
| "list_operation ListTags rt up c params log = listTags rt up c log"
| "list_operation ListMacros rt up c params log = listMacros rt up c params log"
| "list_operation ListRules rt up c params log = listRules rt up c params log"
| "list_operation ListIntegrations rt up c params log = listIntegrations rt up c log"
| "list_operation ListViews rt up c params log = listViews rt up c log"
| "list_operation (ListViewItems viewId) rt up c params log = listViewItems rt up c viewId params log"
| "list_operation ListSatisfactionSurveys rt up c params log =
     listSatisfactionSurveys rt up c params log"
| "list_operation ListCustomFields rt up c params log = listCustomFields rt up c params log"
| "list_operation ListEvents rt up c params log = listEvents rt up c params log"
| "list_operation ListJobs rt up c params log = listJobs rt up c params log"
| "list_operation ListWidgets rt up c params log = listWidgets rt up c log"

text \<open>The list operations whose result is \<open>{items, nextCursor}\<close>; the others return the
  array itself.\<close>

fun is_paginated :: "list_op \<Rightarrow> bool" where
  "is_paginated ListTeams = False"
| "is_paginated ListTags = False"
| "is_paginated ListIntegrations = False"
| "is_paginated ListViews = False"
| "is_paginated ListCustomFields = False"
| "is_paginated ListWidgets = False"
| "is_paginated op = True"

subsection \<open>Creating a macro\<close>

definition createMacro ::
  "runtime \<Rightarrow> upstream \<Rightarrow> GorgiasCredentials \<Rightarrow> jsv \<Rightarrow> calls \<Rightarrow> (exn + jsv) \<times> calls" where
  "createMacro rt up credentials input log =
     (if nullish input then (Inl (cannot_read input ''name''), log)
      else
        (let body = JObj [(''name'', get_prop input ''name''),
                          (''actions'', get_prop input ''actions''),
                          (''intent'', get_prop input ''intent''),
                          (''language'', get_prop input ''language'')]
         in case request rt up credentials (''/macros'', None)
                   \<lparr> opt_method = Some ''POST'', opt_body = Some (JSON_stringify rt 0 body) \<rparr> log of
              (Inl e, log') \<Rightarrow> (Inl e, log')
            | (Inr data, log') \<Rightarrow> (mapMacro data, log')))"

section \<open>Response formatting (utils/formatters.ts)\<close>

text \<open>The interface \<open>ToolResponse\<close>. The text of a content item is what
  \<open>JSON.stringify\<close> or the markdown formatter returned: a string, or \<open>undefined\<close>
  (\<open>None\<close>) when \<open>JSON.stringify\<close> was given \<open>undefined\<close>.\<close>

record content_item =
  ctype :: string
  ctext :: "string option"

record ToolResponse =
  content :: "content_item list"
  isError :: "bool option"

datatype ResponseFormat = Json | Markdown

definition text_response :: "string option \<Rightarrow> ToolResponse" where
  "text_response t = \<lparr> content = [\<lparr> ctype = ''text'', ctext = t \<rparr>], isError = None \<rparr>"

subsection \<open>String helpers\<close>

definition capitalize :: "runtime \<Rightarrow> string \<Rightarrow> string" where
  "capitalize rt str = toUpperCase rt (take 1 str) @ drop 1 str"

text \<open>\<open>String.prototype.trim\<close>.\<close>

definition trim :: "string \<Rightarrow> string" where
  "trim s = rev (dropWhile is_space (rev (dropWhile is_space s)))"

text \<open>\<open>key.replace(/([A-Z])/g, ' $1').replace(/^./, (str) => str.toUpperCase()).trim()\<close>.
  The dot of the second pattern matches no line terminator.\<close>

definition formatKey :: "runtime \<Rightarrow> string \<Rightarrow> string" where
  "formatKey rt key =
     (let spaced = concat (map (\<lambda>c. if c \<in> set ''ABCDEFGHIJKLMNOPQRSTUVWXYZ''
                                      then [CHR '' '', c] else [c]) key);
          upper = (case spaced of
                     [] \<Rightarrow> []
                   | c # cs \<Rightarrow> if of_char c \<in> {10, 13 :: nat} then spaced
                               else toUpperCase rt [c] @ cs)
      in trim upper)"

text \<open>\<open>ToNumber\<close>, for the comparison in \<open>truncate\<close>: an array or object is first
  converted to a string.\<close>

definition ToNumber :: "runtime \<Rightarrow> jsv \<Rightarrow> exn + js_number" where
  "ToNumber rt v =
     (case v of
        JUndefined \<Rightarrow> Inr NaN
      | JNull \<Rightarrow> Inr (Finite 0)
      | JBool b \<Rightarrow> Inr (Finite (if b then 1 else 0))
      | JNum n \<Rightarrow> Inr (Finite n)
      | JStr s \<Rightarrow> Inr (StringToNumber rt s)
      | _ \<Rightarrow> (case toStr v of Inl e \<Rightarrow> Inl e | Inr s \<Rightarrow> Inr (StringToNumber rt s)))"

fun le_number :: "js_number \<Rightarrow> nat \<Rightarrow> bool" where
  "le_number NaN m = False"
| "le_number (Finite n) m = (n \<le> int m)"

text \<open>\<open>truncate\<close>. Its parameter is typed \<open>string\<close>; the callers pass whatever truthy
  value the entity holds. On a string it is the source's two lines. On anything else
  \<open>str.length <= maxLength\<close> compares what \<open>length\<close> converts to, and when the
  comparison fails \<open>str.substring\<close> is not a function.\<close>

definition truncate :: "runtime \<Rightarrow> jsv \<Rightarrow> nat \<Rightarrow> exn + jsv" where
  "truncate rt str maxLength =
     (case str of
        JStr s \<Rightarrow> Inr (JStr (if length s \<le> maxLength then s
                              else take (maxLength - 3) s @ ''...''))
      | _ \<Rightarrow> if nullish str then Inl (cannot_read str ''length'')
             else (case ToNumber rt (get_prop str ''length'') of
                     Inl e \<Rightarrow> Inl e
                   | Inr n \<Rightarrow> if le_number n maxLength then Inr str
                              else Inl (TypeError ''str.substring is not a function'')))"

text \<open>\<open>formatDate\<close>: the part of the ISO string before the first \<open>T\<close>; the argument itself
  when the date is invalid and \<open>toISOString\<close> throws inside the \<open>try\<close>.\<close>

definition formatDate :: "runtime \<Rightarrow> jsv \<Rightarrow> jsv" where
  "formatDate rt dateString =
     (if \<not> truthy dateString then JStr ''-''
      else case Date_toISOString rt dateString of
             Some stamp \<Rightarrow> JStr (takeWhile (\<lambda>c. c \<noteq> CHR ''T'') stamp)
           | None \<Rightarrow> dateString)"

subsection \<open>Tables per entity type\<close>

text \<open>A table: the two header lines, then one line per item from the loop.\<close>

definition table_lines :: "string list \<Rightarrow> (jsv \<Rightarrow> exn + string) \<Rightarrow> jsv list \<Rightarrow> exn + string" where
  "table_lines header row items =
     (case collect row items of
        Inl e \<Rightarrow> Inl e
      | Inr rows \<Rightarrow> Inr (join [CHR 0x0A] (header @ rows)))"

text \<open>\<open>x ? 'Yes' : 'No'\<close>.\<close>

definition yes_no :: "jsv \<Rightarrow> jsv" where
  "yes_no v = JStr (if truthy v then ''Yes'' else ''No'')"

text \<open>\<open>x ? truncate(x, n) : '-'\<close>.\<close>

definition truncate_or_dash :: "runtime \<Rightarrow> jsv \<Rightarrow> nat \<Rightarrow> exn + jsv" where
  "truncate_or_dash rt v n = (if truthy v then truncate rt v n else Inr (JStr ''-''))"

text \<open>\<open>e.name || `${e.firstname || ''} ${e.lastname || ''}`.trim() || '-'\<close>.\<close>

definition display_name :: "jsv \<Rightarrow> exn + jsv" where
  "display_name e =
     (if truthy (get_prop e ''name'') then Inr (get_prop e ''name'')
      else case template [Sub (or_js (get_prop e ''firstname'') (JStr [])), Lit '' '',
                          Sub (or_js (get_prop e ''lastname'') (JStr []))] of
             Inl err \<Rightarrow> Inl err
           | Inr full \<Rightarrow> Inr (or_js (JStr (trim full)) (JStr ''-'')))"

definition ticket_row :: "runtime \<Rightarrow> jsv \<Rightarrow> exn + string" where
  "ticket_row rt ticket =
     (if nullish ticket then Inl (cannot_read ticket ''customer'')
      else
        (let customer = or_js (or_js (opt_prop (get_prop ticket ''customer'') ''email'')
                                     (opt_prop (get_prop ticket ''customer'') ''name''))
                              (JStr ''-'')
         in case truncate_or_dash rt (get_prop ticket ''subject'') 40 of
              Inl e \<Rightarrow> Inl e
            | Inr subject \<Rightarrow>
                (let created = formatDate rt (get_prop ticket ''createdDatetime'')
                 in template
                      [Lit ''| '', Sub (get_prop ticket ''id''), Lit '' | '', Sub subject,
                       Lit '' | '', Sub (get_prop ticket ''status''),
                       Lit '' | '', Sub (or_js (get_prop ticket ''priority'') (JStr ''-'')),
                       Lit '' | '', Sub (get_prop ticket ''channel''),
                       Lit '' | '', Sub customer, Lit '' | '', Sub created, Lit '' |''])))"

definition formatTicketsTable :: "runtime \<Rightarrow> jsv list \<Rightarrow> exn + string" where
  "formatTicketsTable rt tickets =
     table_lines
       [''| ID | Subject | Status | Priority | Channel | Customer | Created |'',
        ''|---|---|---|---|---|---|---|'']
       (ticket_row rt) tickets"

definition message_row :: "runtime \<Rightarrow> jsv \<Rightarrow> exn + string" where
  "message_row rt message =
     (if nullish message then Inl (cannot_read message ''sender'')
      else
        (let sender = or_js (or_js (opt_prop (get_prop message ''sender'') ''email'')
                                   (opt_prop (get_prop message ''sender'') ''name''))
                            (JStr ''-'');
             created = formatDate rt (get_prop message ''createdDatetime'')
         in template
              [Lit ''| '', Sub (get_prop message ''id''),
               Lit '' | '', Sub (get_prop message ''ticketId''),
               Lit '' | '', Sub (get_prop message ''channel''),
               Lit '' | '', Sub (yes_no (get_prop message ''fromAgent'')),
               Lit '' | '', Sub sender, Lit '' | '', Sub created, Lit '' |'']))"

definition formatMessagesTable :: "runtime \<Rightarrow> jsv list \<Rightarrow> exn + string" where
  "formatMessagesTable rt messages =
     table_lines
       [''| ID | Ticket | Channel | From Agent | Sender | Created |'',
        ''|---|---|---|---|---|---|'']
       (message_row rt) messages"

definition customer_row :: "runtime \<Rightarrow> jsv \<Rightarrow> exn + string" where
  "customer_row rt customer =
     (if nullish customer then Inl (cannot_read customer ''name'')
      else case display_name customer of
             Inl e \<Rightarrow> Inl e
           | Inr name \<Rightarrow>
               (let created = formatDate rt (get_prop customer ''createdDatetime'')
                in template
                     [Lit ''| '', Sub (get_prop customer ''id''), Lit '' | '', Sub name,
                      Lit '' | '', Sub (or_js (get_prop customer ''email'') (JStr ''-'')),
                      Lit '' | '', Sub (or_js (get_prop customer ''language'') (JStr ''-'')),
                      Lit '' | '', Sub (get_prop customer ''ticketsCount''),
                      Lit '' | '', Sub created, Lit '' |'']))"

definition formatCustomersTable :: "runtime \<Rightarrow> jsv list \<Rightarrow> exn + string" where
  "formatCustomersTable rt customers =
     table_lines
       [''| ID | Name | Email | Language | Tickets | Created |'',
        ''|---|---|---|---|---|---|'']
       (customer_row rt) customers"

definition user_row :: "runtime \<Rightarrow> jsv \<Rightarrow> exn + string" where
  "user_row rt user =
     (if nullish user then Inl (cannot_read user ''name'')
      else case display_name user of
             Inl e \<Rightarrow> Inl e
           | Inr name \<Rightarrow>
               (let created = formatDate rt (get_prop user ''createdDatetime'')
                in template
                     [Lit ''| '', Sub (get_prop user ''id''), Lit '' | '', Sub name,
                      Lit '' | '', Sub (get_prop user ''email''),
                      Lit '' | '', Sub (or_js (opt_prop (get_prop user ''role'') ''name'') (JStr ''-'')),
                      Lit '' | '', Sub (yes_no (get_prop user ''active'')),
                      Lit '' | '', Sub created, Lit '' |'']))"

definition formatUsersTable :: "runtime \<Rightarrow> jsv list \<Rightarrow> exn + string" where
  "formatUsersTable rt users =
     table_lines
       [''| ID | Name | Email | Role | Active | Created |'',
        ''|---|---|---|---|---|---|'']
       (user_row rt) users"

definition team_row :: "runtime \<Rightarrow> jsv \<Rightarrow> exn + string" where
  "team_row rt team =
     (if nullish team then Inl (cannot_read team ''description'')
      else case truncate_or_dash rt (get_prop team ''description'') 30 of
             Inl e \<Rightarrow> Inl e
           | Inr description \<Rightarrow>
               (let created = formatDate rt (get_prop team ''createdDatetime'')
                in template
                     [Lit ''| '', Sub (get_prop team ''id''),
                      Lit '' | '', Sub (get_prop team ''name''),
                      Lit '' | '', Sub description,
                      Lit '' | '', Sub (or_js (opt_prop (get_prop team ''members'') ''length'') (JNum 0)),
                      Lit '' | '', Sub created, Lit '' |'']))"

definition formatTeamsTable :: "runtime \<Rightarrow> jsv list \<Rightarrow> exn + string" where
  "formatTeamsTable rt teams =
     table_lines
       [''| ID | Name | Description | Members | Created |'',
        ''|---|---|---|---|---|'']
       (team_row rt) teams"

definition tag_row :: "runtime \<Rightarrow> jsv \<Rightarrow> exn + string" where
  "tag_row rt tag =
     (if nullish tag then Inl (cannot_read tag ''description'')
      else case truncate_or_dash rt (get_prop tag ''description'') 30 of
             Inl e \<Rightarrow> Inl e
           | Inr description \<Rightarrow>
               (let created = formatDate rt (get_prop tag ''createdDatetime'')
                in template
                     [Lit ''| '', Sub (get_prop tag ''id''),
                      Lit '' | '', Sub (get_prop tag ''name''),
                      Lit '' | '', Sub description,
                      Lit '' | '', Sub (get_prop tag ''usage''),
                      Lit '' | '', Sub created, Lit '' |'']))"

definition formatTagsTable :: "runtime \<Rightarrow> jsv list \<Rightarrow> exn + string" where
  "formatTagsTable rt tags =
     table_lines
       [''| ID | Name | Description | Usage | Created |'',
        ''|---|---|---|---|---|'']
       (tag_row rt) tags"

definition macro_row :: "runtime \<Rightarrow> jsv \<Rightarrow> exn + string" where
  "macro_row rt macro =
     (if nullish macro then Inl (cannot_read macro ''createdDatetime'')
      else
        (let created = formatDate rt (get_prop macro ''createdDatetime'')
         in template
              [Lit ''| '', Sub (get_prop macro ''id''),
               Lit '' | '', Sub (get_prop macro ''name''),
               Lit '' | '', Sub (or_js (get_prop macro ''intent'') (JStr ''-'')),
               Lit '' | '', Sub (or_js (get_prop macro ''language'') (JStr ''-'')),
               Lit '' | '', Sub (get_prop macro ''usage''),
               Lit '' | '', Sub created, Lit '' |'']))"

definition formatMacrosTable :: "runtime \<Rightarrow> jsv list \<Rightarrow> exn + string" where
  "formatMacrosTable rt macros =
     table_lines
       [''| ID | Name | Intent | Language | Usage | Created |'',
        ''|---|---|---|---|---|---|'']
       (macro_row rt) macros"

definition rule_row :: "runtime \<Rightarrow> jsv \<Rightarrow> exn + string" where
  "rule_row rt rule =
     (if nullish rule then Inl (cannot_read rule ''deactivatedDatetime'')
      else
        (let active = JStr (if truthy (get_prop rule ''deactivatedDatetime'') then ''No'' else ''Yes'');
             created = formatDate rt (get_prop rule ''createdDatetime'')
         in template
              [Lit ''| '', Sub (get_prop rule ''id''),
               Lit '' | '', Sub (get_prop rule ''name''),
               Lit '' | '', Sub (get_prop rule ''eventTypes''),
               Lit '' | '', Sub (get_prop rule ''priority''),
               Lit '' | '', Sub active, Lit '' | '', Sub created, Lit '' |'']))"

definition formatRulesTable :: "runtime \<Rightarrow> jsv list \<Rightarrow> exn + string" where
  "formatRulesTable rt rules =
     table_lines
       [''| ID | Name | Event Types | Priority | Active | Created |'',
        ''|---|---|---|---|---|---|'']
       (rule_row rt) rules"

definition survey_row :: "runtime \<Rightarrow> jsv \<Rightarrow> exn + string" where
  "survey_row rt survey =
     (if nullish survey then Inl (cannot_read survey ''score'')
      else case (if get_prop survey ''score'' \<noteq> JNull then toStr (get_prop survey ''score'')
                 else Inr ''-'') of
             Inl e \<Rightarrow> Inl e
           | Inr score \<Rightarrow>
               (let scoredAt = (if truthy (get_prop survey ''scoredDatetime'')
                                then formatDate rt (get_prop survey ''scoredDatetime'')
                                else JStr ''-'');
                    created = formatDate rt (get_prop survey ''createdDatetime'')
                in template
                     [Lit ''| '', Sub (get_prop survey ''id''), Lit '' | '', Lit score,
                      Lit '' | '', Sub (get_prop survey ''ticketId''),
                      Lit '' | '', Sub (get_prop survey ''customerId''),
                      Lit '' | '', Sub scoredAt, Lit '' | '', Sub created, Lit '' |'']))"

definition formatSatisfactionSurveysTable :: "runtime \<Rightarrow> jsv list \<Rightarrow> exn + string" where
  "formatSatisfactionSurveysTable rt surveys =
     table_lines
       [''| ID | Score | Ticket | Customer | Scored At | Created |'',
        ''|---|---|---|---|---|---|'']
       (survey_row rt) surveys"

subsection \<open>The generic table\<close>

text \<open>\<open>Object.keys\<close>: the keys of an object, the indices of an array or a string, nothing
  for a number or a boolean; it throws on \<open>null\<close> and \<open>undefined\<close>.\<close>

definition Object_keys :: "jsv \<Rightarrow> exn + string list" where
  "Object_keys v =
     (case v of
        JObj kvs \<Rightarrow> Inr (map fst kvs)
      | JArr xs \<Rightarrow> Inr (map String_nat [0 ..< length xs])
      | JStr s \<Rightarrow> Inr (map String_nat [0 ..< length s])
      | JNum n \<Rightarrow> Inr []
      | JBool b \<Rightarrow> Inr []
      | _ \<Rightarrow> Inl (TypeError ''Cannot convert undefined or null to object''))"

text \<open>\<open>String(record[k] ?? '-')\<close> for a key \<open>k\<close> taken from the data: an own property
  that is \<open>null\<close> or \<open>undefined\<close> prints as the dash, a missing one as what the prototype
  chain has under that name, or the dash.\<close>

definition cell :: "runtime \<Rightarrow> jsv \<Rightarrow> string \<Rightarrow> exn + string" where
  "cell rt record k =
     (if nullish record then Inl (cannot_read record k)
      else case own_prop record k of
             Some v \<Rightarrow> if nullish v then Inr ''-'' else toStr v
           | None \<Rightarrow> (case proto_member rt record k of Some s \<Rightarrow> Inr s | None \<Rightarrow> Inr ''-''))"

definition generic_row :: "runtime \<Rightarrow> string list \<Rightarrow> jsv \<Rightarrow> exn + string" where
  "generic_row rt keys item =
     (case collect (cell rt item) keys of
        Inl e \<Rightarrow> Inl e
      | Inr values \<Rightarrow> Inr (''| '' @ join '' | '' values @ '' |''))"

definition formatGenericTable :: "runtime \<Rightarrow> jsv list \<Rightarrow> exn + string" where
  "formatGenericTable rt items =
     (case items of
        [] \<Rightarrow> Inr ''_No items_''
      | first # others \<Rightarrow>
          (case Object_keys first of
             Inl e \<Rightarrow> Inl e
           | Inr all_keys \<Rightarrow>
               (let keys = take 5 all_keys in
                table_lines
                  [''| '' @ join '' | '' keys @ '' |'',
                   ''|'' @ join ''|'' (map (\<lambda>k. ''---'') keys) @ ''|'']
                  (generic_row rt keys) items)))"

definition formatArrayAsMarkdown :: "runtime \<Rightarrow> jsv list \<Rightarrow> string \<Rightarrow> exn + string" where
  "formatArrayAsMarkdown rt data entityType = formatGenericTable rt data"

subsection \<open>Paginated results, single objects, dispatch\<close>

text \<open>\<open>isPaginatedResponse\<close>: an object with a member \<open>items\<close> that is an array.\<close>

definition isPaginatedResponse :: "jsv \<Rightarrow> bool" where
  "isPaginatedResponse data =
     (case data of
        JObj kvs \<Rightarrow> (case map_of kvs ''items'' of Some (JArr xs) \<Rightarrow> True | _ \<Rightarrow> False)
      | _ \<Rightarrow> False)"

text \<open>The \<open>switch\<close> over the entity type.\<close>

definition items_table :: "runtime \<Rightarrow> string \<Rightarrow> jsv list \<Rightarrow> exn + string" where
  "items_table rt entityType items =
     (if entityType = ''tickets'' then formatTicketsTable rt items
      else if entityType = ''messages'' then formatMessagesTable rt items
      else if entityType = ''customers'' then formatCustomersTable rt items
      else if entityType = ''users'' then formatUsersTable rt items
      else if entityType = ''teams'' then formatTeamsTable rt items
      else if entityType = ''tags'' then formatTagsTable rt items
      else if entityType = ''macros'' then formatMacrosTable rt items
      else if entityType = ''rules'' then formatRulesTable rt items
      else if entityType = ''satisfaction_surveys'' then formatSatisfactionSurveysTable rt items
      else formatGenericTable rt items)"

text \<open>\<open>formatPaginatedAsMarkdown\<close>, called on what \<open>isPaginatedResponse\<close> accepts.\<close>

definition formatPaginatedAsMarkdown :: "runtime \<Rightarrow> jsv \<Rightarrow> string \<Rightarrow> exn + string" where
  "formatPaginatedAsMarkdown rt data entityType =
     (case get_prop data ''items'' of
        JArr items \<Rightarrow>
          (case (if truthy (get_prop data ''nextCursor'')
                 then (case template [Lit ''**More available:** Yes (cursor: '', Lit [CHR 0x60],
                                      Sub (get_prop data ''nextCursor''), Lit [CHR 0x60], Lit '')''] of
                         Inl e \<Rightarrow> Inl e
                       | Inr hint \<Rightarrow> Inr [hint])
                 else Inr []) of
             Inl e \<Rightarrow> Inl e
           | Inr hint \<Rightarrow>
               (let lines = [''## '' @ capitalize rt entityType, [],
                             ''**Showing:** '' @ String_nat (length items) @ '' items'']
                            @ hint @ [[]]
                in if length items = 0
                   then Inr (join [CHR 0x0A] (lines @ [''_No items found._'']))
                   else (case items_table rt entityType items of
                           Inl e \<Rightarrow> Inl e
                         | Inr t \<Rightarrow> Inr (join [CHR 0x0A] (lines @ [t])))))
      | _ \<Rightarrow> Inl (cannot_read JUndefined ''length''))"

text \<open>The lines of one entry of \<open>Object.entries(data)\<close>.\<close>

definition entry_lines :: "runtime \<Rightarrow> string \<times> jsv \<Rightarrow> exn + string list" where
  "entry_lines rt kv =
     (case snd kv of
        JUndefined \<Rightarrow> Inr []
      | JNull \<Rightarrow> Inr []
      | JArr xs \<Rightarrow> Inr [''**'' @ formatKey rt (fst kv) @ '':**'', [CHR 0x60, CHR 0x60, CHR 0x60] @ ''json'',
                       JSON_stringify rt 2 (snd kv), [CHR 0x60, CHR 0x60, CHR 0x60]]
      | JObj kvs \<Rightarrow> Inr [''**'' @ formatKey rt (fst kv) @ '':**'', [CHR 0x60, CHR 0x60, CHR 0x60] @ ''json'',
                        JSON_stringify rt 2 (snd kv), [CHR 0x60, CHR 0x60, CHR 0x60]]
      | v \<Rightarrow> (case template [Lit ''**'', Lit (formatKey rt (fst kv)), Lit '':** '', Sub v] of
                Inl e \<Rightarrow> Inl e
              | Inr line \<Rightarrow> Inr [line]))"

text \<open>\<open>entityType.replace(/s$/, '')\<close>.\<close>

definition singular :: "string \<Rightarrow> string" where
  "singular entityType =
     (if entityType \<noteq> [] \<and> last entityType = CHR ''s'' then butlast entityType else entityType)"

text \<open>\<open>formatObjectAsMarkdown\<close>, called on an object that is no array.\<close>

definition formatObjectAsMarkdown :: "runtime \<Rightarrow> (string \<times> jsv) list \<Rightarrow> string \<Rightarrow> exn + string" where
  "formatObjectAsMarkdown rt entries entityType =
     (case collect (entry_lines rt) entries of
        Inl e \<Rightarrow> Inl e
      | Inr ls \<Rightarrow> Inr (join [CHR 0x0A] ([''## '' @ capitalize rt (singular entityType), []] @ concat ls)))"

definition formatAsMarkdown :: "runtime \<Rightarrow> jsv \<Rightarrow> string \<Rightarrow> exn + string" where
  "formatAsMarkdown rt data entityType =
     (if isPaginatedResponse data then formatPaginatedAsMarkdown rt data entityType
      else case data of
             JArr xs \<Rightarrow> formatArrayAsMarkdown rt xs entityType
           | JObj kvs \<Rightarrow> formatObjectAsMarkdown rt kvs entityType
           | _ \<Rightarrow> toStr data)"

definition formatResponse :: "runtime \<Rightarrow> jsv \<Rightarrow> ResponseFormat \<Rightarrow> string \<Rightarrow> exn + ToolResponse" where
  "formatResponse rt data format entityType =
     (if format = Markdown
      then (case formatAsMarkdown rt data entityType of
              Inl e \<Rightarrow> Inl e
            | Inr t \<Rightarrow> Inr (text_response (Some t)))
      else Inr (text_response (stringify rt 2 data)))"

text \<open>\<open>formatError\<close>. Everything thrown in this model is an \<open>Error\<close>, so the last branch of
  the source, for other values, is never taken.\<close>

definition formatError :: "runtime \<Rightarrow> exn \<Rightarrow> ToolResponse" where
  "formatError rt error =
     (let errorInfo = formatErrorForLogging rt error;
          message = (if instanceof_GorgiasApiError error
                     then ''Error: '' @ message_of error @
                          (if retryable error then '' (retryable)'' else [])
                     else ''Error: '' @ message_of error)
      in \<lparr> content = [\<lparr> ctype = ''text'',
                         ctext = stringify rt 2
                           (JObj [(''error'', JStr message), (''details'', errorInfo)]) \<rparr>],
           isError = Some True \<rparr>)"

subsection \<open>Inputs the markdown formatter renders\<close>

text \<open>A value in which no object has an own member named \<open>toString\<close>: every part of it
  converts to a string.\<close>

fun plain :: "jsv \<Rightarrow> bool" where
  "plain (JArr xs) = list_all plain xs"
| "plain (JObj kvs) = (''toString'' \<notin> fst ` set kvs \<and> list_all (\<lambda>kv. plain (snd kv)) kvs)"
| "plain v = True"

text \<open>What \<open>truncate\<close> is made for: a string, or a falsy value that never reaches it.\<close>

definition text_or_falsy :: "jsv \<Rightarrow> bool" where
  "text_or_falsy v = (case v of JStr t \<Rightarrow> True | _ \<Rightarrow> \<not> truthy v)"

text \<open>An item that the table of its entity type renders: not \<open>null\<close> or \<open>undefined\<close>, and
  with a string (or nothing) where the table truncates.\<close>

definition row_ok :: "string \<Rightarrow> jsv \<Rightarrow> bool" where
  "row_ok entityType item =
     (\<not> nullish item
      \<and> (entityType = ''tickets'' \<longrightarrow> text_or_falsy (get_prop item ''subject''))
      \<and> (entityType = ''teams'' \<or> entityType = ''tags'' \<longrightarrow>
           text_or_falsy (get_prop item ''description'')))"

text \<open>An input that the markdown formatter renders: plain, and when it is a paginated
  result or an array, with items that their table renders.\<close>

definition renderable :: "string \<Rightarrow> jsv \<Rightarrow> bool" where
  "renderable entityType data =
     (plain data \<and>
      (case data of
         JArr xs \<Rightarrow> list_all (\<lambda>x. \<not> nullish x) xs
       | JObj kvs \<Rightarrow> (case map_of kvs ''items'' of
                       Some (JArr items) \<Rightarrow> list_all (row_ok entityType) items
                     | _ \<Rightarrow> True)
       | _ \<Rightarrow> True))"

section \<open>Tools (tools/customers.ts, tools/macros.ts)\<close>

text \<open>
  A tool is registered with a schema and a handler. The protocol runtime checks the
  arguments of a call against the schema and runs the handler only on arguments that
  pass, with the defaults filled in. The three schema forms below are what the schema
  library does for the declarations the two tools use; \<open>None\<close> is a failed check.
\<close>

text \<open>\<open>z.number().int().min(1).max(100).default(20)\<close>.\<close>

definition zod_limit :: "jsv \<Rightarrow> int option" where
  "zod_limit v =
     (case v of
        JUndefined \<Rightarrow> Some 20
      | JNum n \<Rightarrow> if 1 \<le> n \<and> n \<le> 100 then Some n else None
      | _ \<Rightarrow> None)"

text \<open>\<open>z.string()\<close> and \<open>z.string().optional()\<close>.\<close>

definition zod_string :: "jsv \<Rightarrow> string option" where
  "zod_string v = (case v of JStr s \<Rightarrow> Some s | _ \<Rightarrow> None)"

definition zod_optional_string :: "jsv \<Rightarrow> jsv option" where
  "zod_optional_string v =
     (case v of JUndefined \<Rightarrow> Some JUndefined | JStr s \<Rightarrow> Some (JStr s) | _ \<Rightarrow> None)"

text \<open>\<open>z.enum(['json', 'markdown']).default('json')\<close>.\<close>

definition zod_format :: "jsv \<Rightarrow> ResponseFormat option" where
  "zod_format v =
     (case v of
        JUndefined \<Rightarrow> Some Json
      | JStr s \<Rightarrow> if s = ''json'' then Some Json else if s = ''markdown'' then Some Markdown else None
      | _ \<Rightarrow> None)"

text \<open>What a tool call ends with: the runtime's refusal of the arguments, or what the
  handler returned.\<close>

datatype tool_outcome =
    InvalidArguments
  | ToolResult ToolResponse

text \<open>The handler of \<open>gorgias_list_customers\<close>.\<close>

definition list_customers_handler ::
  "runtime \<Rightarrow> upstream \<Rightarrow> GorgiasCredentials \<Rightarrow> int \<Rightarrow> jsv \<Rightarrow> jsv \<Rightarrow> ResponseFormat \<Rightarrow> calls \<Rightarrow>
   ToolResponse \<times> calls" where
  "list_customers_handler rt up credentials lim cur mail format log =
     (case listCustomers rt up credentials
             (JObj [(''limit'', JNum lim), (''cursor'', cur), (''email'', mail)]) log of
        (Inl e, log') \<Rightarrow> (formatError rt e, log')
      | (Inr result, log') \<Rightarrow>
          (case formatResponse rt result format ''customers'' of
             Inl e \<Rightarrow> (formatError rt e, log')
           | Inr response \<Rightarrow> (response, log')))"

text \<open>A call of the tool \<open>gorgias_list_customers\<close> with the arguments \<open>args\<close>.\<close>

definition gorgias_list_customers ::
  "runtime \<Rightarrow> upstream \<Rightarrow> GorgiasCredentials \<Rightarrow> jsv \<Rightarrow> calls \<Rightarrow> tool_outcome \<times> calls" where
  "gorgias_list_customers rt up credentials args log =
     (case args of
        JObj kvs \<Rightarrow>
          (case (zod_limit (get_prop args ''limit''), zod_optional_string (get_prop args ''cursor''),
                 zod_optional_string (get_prop args ''email''), zod_format (get_prop args ''format'')) of
             (Some lim, Some cur, Some mail, Some format) \<Rightarrow>
               (case list_customers_handler rt up credentials lim cur mail format log of
                  (response, log') \<Rightarrow> (ToolResult response, log'))
           | _ \<Rightarrow> (InvalidArguments, log))
      | _ \<Rightarrow> (InvalidArguments, log))"

text \<open>The handler of \<open>gorgias_create_macro\<close>: \<open>JSON.parse\<close> comes first inside the \<open>try\<close>, and
  the \<open>catch\<close> turns whatever was thrown into an error response.\<close>

definition create_macro_handler ::
  "runtime \<Rightarrow> upstream \<Rightarrow> GorgiasCredentials \<Rightarrow> string \<Rightarrow> string \<Rightarrow> jsv \<Rightarrow> jsv \<Rightarrow> calls \<Rightarrow>
   ToolResponse \<times> calls" where
  "create_macro_handler rt up credentials name actionsJson intent language log =
     (case JSON_parse rt actionsJson of
        Inl syntax \<Rightarrow> (formatError rt (SyntaxError syntax), log)
      | Inr actions \<Rightarrow>
          (case createMacro rt up credentials
                  (JObj [(''name'', JStr name), (''actions'', actions), (''intent'', intent),
                         (''language'', language)]) log of
             (Inl e, log') \<Rightarrow> (formatError rt e, log')
           | (Inr macro, log') \<Rightarrow>
               (text_response
                  (stringify rt 2
                     (JObj [(''success'', JBool True), (''message'', JStr ''Macro created''),
                            (''macro'', macro)])),
                log')))"

text \<open>A call of the tool \<open>gorgias_create_macro\<close> with the arguments \<open>args\<close>.\<close>

definition gorgias_create_macro ::
  "runtime \<Rightarrow> upstream \<Rightarrow> GorgiasCredentials \<Rightarrow> jsv \<Rightarrow> calls \<Rightarrow> tool_outcome \<times> calls" where
  "gorgias_create_macro rt up credentials args log =
     (case args of
        JObj kvs \<Rightarrow>
          (case (zod_string (get_prop args ''name''), zod_string (get_prop args ''actionsJson''),
                 zod_optional_string (get_prop args ''intent''),
                 zod_optional_string (get_prop args ''language'')) of
             (Some name, Some actionsJson, Some intent, Some language) \<Rightarrow>
               (case create_macro_handler rt up credentials name actionsJson intent language log of
                  (response, log') \<Rightarrow> (ToolResult response, log'))
           | _ \<Rightarrow> (InvalidArguments, log))
      | _ \<Rightarrow> (InvalidArguments, log))"

section \<open>Sample inputs\<close>

text \<open>A runtime to run the model on the samples below: its JSON and date functions know
  the sample texts only.\<close>

definition dq :: string where
  "dq = [CHR 0x22]"

definition upper_char :: "char \<Rightarrow> char" where
  "upper_char c =
     (if c \<in> set ''abcdefghijklmnopqrstuvwxyz'' then char_of (of_char c - (32::nat)) else c)"

definition sample_parse :: "string \<Rightarrow> string + jsv" where
  "sample_parse s =
     (if s = ''{'' @ dq @ ''message'' @ dq @ '':'' @ dq @ ''boom'' @ dq @ ''}''
      then Inr (JObj [(''message'', JStr ''boom'')])
      else if s = ''{'' @ dq @ ''data'' @ dq @ '':[]}''
      then Inr (JObj [(''data'', JArr [])])
      else if s = ''[]''
      then Inr (JArr [])
      else if s = ''{'' @ dq @ ''error'' @ dq @ '':{'' @ dq @ ''code'' @ dq @ '':7}}''
      then Inr (JObj [(''error'', JObj [(''code'', JNum 7)])])
      else if s = ''{'' @ dq @ ''message'' @ dq @ '':{'' @ dq @ ''toString'' @ dq @ '':1}}''
      then Inr (JObj [(''message'', JObj [(''toString'', JNum 1)])])
      else Inl ''Unexpected token'')"

text \<open>A compact JSON printer for the sample runtime; it ignores the indentation.\<close>

definition quote_json :: "string \<Rightarrow> string" where
  "quote_json t =
     dq @ concat (map (\<lambda>c. if c = CHR 0x22 \<or> c = CHR 0x5C then [CHR 0x5C, c] else [c]) t) @ dq"

fun print_json :: "jsv \<Rightarrow> string" where
  "print_json JUndefined = ''null''"
| "print_json JNull = ''null''"
| "print_json (JBool b) = (if b then ''true'' else ''false'')"
| "print_json (JNum n) = String_int n"
| "print_json (JStr t) = quote_json t"
| "print_json (JArr xs) = ''['' @ join '','' (map print_json xs) @ '']''"
| "print_json (JObj kvs) =
     ''{'' @ join '','' (map (\<lambda>kv. quote_json (fst kv) @ '':'' @ print_json (snd kv))
                          (filter (\<lambda>kv. snd kv \<noteq> JUndefined) kvs)) @ ''}''"

definition sample_stringify :: "nat \<Rightarrow> jsv \<Rightarrow> string" where
  "sample_stringify n v = print_json v"

definition sample_runtime :: runtime where
  "sample_runtime =
     \<lparr> btoa = (\<lambda>s. s),
       JSON_parse = sample_parse,
       JSON_stringify = sample_stringify,
       Date_toISOString =
         (\<lambda>v. if v = JStr ''2024-01-15T10:30:00Z'' then Some ''2024-01-15T10:30:00.000Z''
              else None),
       StringToNumber = (\<lambda>s. if s \<noteq> [] \<and> list_all is_digit s then Finite (int (digits_val s)) else NaN),
       toUpperCase = map upper_char,
       proto_member = (\<lambda>v k. None),
       formatErrorForLogging = (\<lambda>e. JObj [(''message'', JStr (message_of e))]) \<rparr>"

text \<open>A request to the protocol endpoint that carries the domain and the e-mail headers
  and no API key.\<close>

definition request_without_key :: Request where
  "request_without_key =
     \<lparr> pathname = ''/mcp'', http_method = ''POST'',
       headers_get = map_of [(''X-Gorgias-Domain'', ''acme''),
                             (''X-Gorgias-Email'', ''agent@acme.test'')] \<rparr>"

text \<open>A request to the protocol endpoint whose e-mail header is present and empty.\<close>

definition request_empty_email :: Request where
  "request_empty_email =
     \<lparr> pathname = ''/mcp'', http_method = ''POST'',
       headers_get = map_of [(''X-Gorgias-Domain'', ''acme''),
                             (''X-Gorgias-Email'', []),
                             (''X-Gorgias-API-Key'', ''k3y'')] \<rparr>"






definition response_empty_page :: http_response where
  "response_empty_page =
     \<lparr> up_status = 200, up_header = Map.empty,
       up_body = ''{'' @ dq @ ''data'' @ dq @ '':[]}'' \<rparr>"

text \<open>Credentials, an upstream that answers every call with the empty page, and one that
  fails the test if it is ever called.\<close>

definition acme :: GorgiasCredentials where
  "acme = \<lparr> domain = ''acme'', email = ''agent@acme.test'', apiKey = ''k3y'' \<rparr>"

definition empty_upstream :: upstream where
  "empty_upstream call = Inr response_empty_page"

definition failing_upstream :: upstream where
  "failing_upstream call = Inl (TypeError ''fetch failed'')"





text \<open>A page of one ticket, in internal shape.\<close>

definition ticket_page :: jsv where
  "ticket_page =
     JObj [(''items'',
              JArr [JObj [(''id'', JNum 7), (''subject'', JStr ''Where is my order?''),
                          (''status'', JStr ''open''), (''priority'', JNull),
                          (''channel'', JStr ''email''),
                          (''customer'', JObj [(''id'', JNum 3), (''email'', JStr ''ann@shop.test''),
                                              (''name'', JNull)]),
                          (''createdDatetime'', JStr ''2024-01-15T10:30:00Z'')]]),
           (''nextCursor'', JStr ''abc'')]"



section \<open>Properties of the JavaScript operations\<close>


lemma collect_Inr:
  "(\<And>x. x \<in> set xs \<Longrightarrow> \<exists>y. f x = Inr y) \<Longrightarrow> \<exists>ys. collect f xs = Inr ys"
proof (induction xs)
  case Nil
  then show ?case by simp
next
  case (Cons x xs)
  then obtain y where "f x = Inr y" by fastforce
  moreover from Cons obtain ys where "collect f xs = Inr ys" by fastforce
  ultimately show ?case by simp
qed


lemma plain_toStr: "plain v \<Longrightarrow> \<exists>t. toStr v = Inr t"
proof (induction v)
  case (JArr xs)
  have "\<exists>ys. collect (\<lambda>x. if nullish x then Inr [] else toStr x) xs = Inr ys"
  proof (rule collect_Inr)
    fix x assume "x \<in> set xs"
    with JArr show "\<exists>y. (if nullish x then Inr [] else toStr x) = Inr y"
      by (auto simp: list_all_iff)
  qed
  then show ?case by auto
qed auto

section \<open>Properties of the credential check and the router\<close>

lemma missing_headers_cases:
  "missing_headers c =
     map snd (filter (\<lambda>(m, h). m = None \<or> m = Some [])
       [(domain c, ''X-Gorgias-Domain''), (email c, ''X-Gorgias-Email''),
        (apiKey c, ''X-Gorgias-API-Key'')])"
  by (simp add: missing_headers_def falsy_member_def split: option.splits)

lemma missing_headers_empty_iff:
  "missing_headers c = [] \<longleftrightarrow>
     \<not> falsy_member (domain c) \<and> \<not> falsy_member (email c) \<and> \<not> falsy_member (apiKey c)"
  by (simp add: missing_headers_def)

lemma or_undefined_never_empty: "or_undefined h \<noteq> Some []"
  by (simp add: or_undefined_def split: option.splits)

lemma falsy_or_undefined:
  "falsy_member (or_undefined h) \<longleftrightarrow> h = None \<or> h = Some []"
  by (simp add: or_undefined_def falsy_member_def split: option.splits)

text \<open>
  C3, as the code has it. \<open>validateGorgiasCredentials\<close> returns (with the same three
  strings) for every triple whose three members are non-empty strings. For every triple
  with a member that is \<open>undefined\<close> or the empty string it throws, and the message is
  \<open>Missing required headers:\<close> followed by the header names of exactly those members, in
  the order domain, email, apiKey, separated by a comma and a space.
\<close>

theorem validate_accepts_nonempty_lists_missing:
  "(domain c = Some d \<and> d \<noteq> [] \<and> email c = Some e \<and> e \<noteq> [] \<and> apiKey c = Some k \<and> k \<noteq> []
      \<longrightarrow> validateGorgiasCredentials c = Inr \<lparr> domain = d, email = e, apiKey = k \<rparr>)
   \<and> ((\<exists>m \<in> {domain c, email c, apiKey c}. m = None \<or> m = Some [])
      \<longrightarrow> validateGorgiasCredentials c =
            Inl (Error (''Missing required headers: '' @ join '', ''
              (map snd (filter (\<lambda>(m, h). m = None \<or> m = Some [])
                 [(domain c, ''X-Gorgias-Domain''), (email c, ''X-Gorgias-Email''),
                  (apiKey c, ''X-Gorgias-API-Key'')])))))"
proof (intro conjI impI)
  assume a: "domain c = Some d \<and> d \<noteq> [] \<and> email c = Some e \<and> e \<noteq> [] \<and> apiKey c = Some k \<and> k \<noteq> []"
  then have "missing_headers c = []"
    by (simp add: missing_headers_def falsy_member_def)
  with a show "validateGorgiasCredentials c = Inr \<lparr> domain = d, email = e, apiKey = k \<rparr>"
    by (simp add: validateGorgiasCredentials_def narrowed_def member_string_def)
next
  assume "\<exists>m \<in> {domain c, email c, apiKey c}. m = None \<or> m = Some []"
  then have "falsy_member (domain c) \<or> falsy_member (email c) \<or> falsy_member (apiKey c)"
    by (auto simp: falsy_member_def)
  then have "missing_headers c \<noteq> []"
    by (simp add: missing_headers_empty_iff)
  then show "validateGorgiasCredentials c =
      Inl (Error (''Missing required headers: '' @ join '', ''
        (map snd (filter (\<lambda>(m, h). m = None \<or> m = Some [])
           [(domain c, ''X-Gorgias-Domain''), (email c, ''X-Gorgias-Email''),
            (apiKey c, ''X-Gorgias-API-Key'')]))))"
    unfolding validateGorgiasCredentials_def Let_def missing_headers_cases [symmetric]
    by simp
qed

theorem validate_accepts_nonempty_lists_missing_witness:
  "validateGorgiasCredentials \<lparr> domain = Some ''acme'', email = Some ''agent@acme.test'',
       apiKey = Some ''k3y'' \<rparr>
     = Inr \<lparr> domain = ''acme'', email = ''agent@acme.test'', apiKey = ''k3y'' \<rparr>
   \<and> validateGorgiasCredentials \<lparr> domain = None, email = Some ''agent@acme.test'',
       apiKey = None \<rparr>
     = Inl (Error ''Missing required headers: X-Gorgias-Domain, X-Gorgias-API-Key'')"
  using validate_accepts_nonempty_lists_missing
          [of "\<lparr> domain = Some ''acme'', email = Some ''agent@acme.test'', apiKey = Some ''k3y'' \<rparr>"
              "''acme''" "''agent@acme.test''" "''k3y''"]
        validate_accepts_nonempty_lists_missing
          [of "\<lparr> domain = None, email = Some ''agent@acme.test'', apiKey = None \<rparr>"]
  by simp

text \<open>
  C3 as stated fails: a triple whose three members are all present, the domain being the
  empty string, is rejected.
\<close>

theorem validate_rejects_present_empty_domain:
  "validateGorgiasCredentials \<lparr> domain = Some [], email = Some ''agent@acme.test'',
       apiKey = Some ''k3y'' \<rparr>
     = Inl (Error ''Missing required headers: X-Gorgias-Domain'')"
  by (simp add: validateGorgiasCredentials_def missing_headers_def falsy_member_def)

text \<open>
  C4. A POST to \<open>/mcp\<close> that lacks one of the three credential headers is answered by the
  router itself with status 401; the JSON body carries the error \<open>Unauthorized\<close>, the
  message of the credential check and the three header names as \<open>required_headers\<close>. The
  router answers with a response of its own, so no server is built, no tool is registered
  or run and no client exists to call upstream.
\<close>

theorem fetch_missing_header_401:
  assumes "pathname req = ''/mcp''" and "http_method req = ''POST''"
    and "h \<in> {''X-Gorgias-Domain'', ''X-Gorgias-Email'', ''X-Gorgias-API-Key''}"
    and "headers_get req h = None"
  shows "fetch rt req =
           Responded \<lparr> resp_status = 401, resp_content_type = Some ''application/json'',
             resp_body = JSON_stringify rt 0
               (JObj [(''error'', JStr ''Unauthorized''),
                      (''message'',
                         JStr (''Missing required headers: '' @ join '', ''
                                 (missing_headers (parseGorgiasCredentials req)))),
                      (''required_headers'',
                         JArr [JStr ''X-Gorgias-Domain'', JStr ''X-Gorgias-Email'',
                               JStr ''X-Gorgias-API-Key''])]) \<rparr>"
proof -
  let ?c = "parseGorgiasCredentials req"
  from assms(3,4) have "falsy_member (domain ?c) \<or> falsy_member (email ?c) \<or> falsy_member (apiKey ?c)"
    by (auto simp: parseGorgiasCredentials_def falsy_or_undefined)
  then have "missing_headers ?c \<noteq> []"
    by (simp add: missing_headers_empty_iff)
  then have e: "validateGorgiasCredentials ?c
      = Inl (Error (''Missing required headers: '' @ join '', '' (missing_headers ?c)))"
    by (simp add: validateGorgiasCredentials_def Let_def)
  from assms(1,2) e show ?thesis
    by (simp add: fetch_def Let_def unauthorized_body_def)
qed

theorem fetch_missing_header_401_witness:
  "fetch sample_runtime request_without_key =
     Responded \<lparr> resp_status = 401, resp_content_type = Some ''application/json'',
       resp_body = JSON_stringify sample_runtime 0
         (JObj [(''error'', JStr ''Unauthorized''),
                (''message'', JStr ''Missing required headers: X-Gorgias-API-Key''),
                (''required_headers'',
                   JArr [JStr ''X-Gorgias-Domain'', JStr ''X-Gorgias-Email'',
                         JStr ''X-Gorgias-API-Key''])]) \<rparr>"
  using fetch_missing_header_401
          [of request_without_key "''X-Gorgias-API-Key''" sample_runtime]
  by (simp add: request_without_key_def parseGorgiasCredentials_def or_undefined_def
      missing_headers_def falsy_member_def)

text \<open>
  C10. A credential header that is present with the empty string as its value is read as
  \<open>undefined\<close>: the parsed credential is unset and the credential check names that header
  among the missing ones. When one of the three headers is empty the check throws and the
  router does not go on to the protocol handler. Whatever the headers, no parsed credential
  is the empty string.
\<close>

theorem empty_header_is_absent:
  fixes req :: Request
  defines "c \<equiv> parseGorgiasCredentials req"
  shows "(headers_get req ''X-Gorgias-Domain'' = Some [] \<longrightarrow>
            domain c = None \<and> ''X-Gorgias-Domain'' \<in> set (missing_headers c))
       \<and> (headers_get req ''X-Gorgias-Email'' = Some [] \<longrightarrow>
            email c = None \<and> ''X-Gorgias-Email'' \<in> set (missing_headers c))
       \<and> (headers_get req ''X-Gorgias-API-Key'' = Some [] \<longrightarrow>
            apiKey c = None \<and> ''X-Gorgias-API-Key'' \<in> set (missing_headers c))
       \<and> (headers_get req ''X-Gorgias-Domain'' = Some [] \<or>
          headers_get req ''X-Gorgias-Email'' = Some [] \<or>
          headers_get req ''X-Gorgias-API-Key'' = Some [] \<longrightarrow>
            validateGorgiasCredentials c
              = Inl (Error (''Missing required headers: '' @ join '', '' (missing_headers c)))
            \<and> (\<forall>v. fetch rt req \<noteq> Delegated v))
       \<and> domain c \<noteq> Some [] \<and> email c \<noteq> Some [] \<and> apiKey c \<noteq> Some []"
proof -
  have d: "domain c = or_undefined (headers_get req ''X-Gorgias-Domain'')"
    and e: "email c = or_undefined (headers_get req ''X-Gorgias-Email'')"
    and k: "apiKey c = or_undefined (headers_get req ''X-Gorgias-API-Key'')"
    by (simp_all add: c_def parseGorgiasCredentials_def)
  have unset: "or_undefined (Some []) = None"
    by (simp add: or_undefined_def)
  have falsy: "falsy_member None"
    by (simp add: falsy_member_def)
  have 1: "domain c = None \<and> ''X-Gorgias-Domain'' \<in> set (missing_headers c)"
    if "headers_get req ''X-Gorgias-Domain'' = Some []"
    using that by (simp add: d unset missing_headers_def falsy)
  have 2: "email c = None \<and> ''X-Gorgias-Email'' \<in> set (missing_headers c)"
    if "headers_get req ''X-Gorgias-Email'' = Some []"
    using that by (simp add: e unset missing_headers_def falsy)
  have 3: "apiKey c = None \<and> ''X-Gorgias-API-Key'' \<in> set (missing_headers c)"
    if "headers_get req ''X-Gorgias-API-Key'' = Some []"
    using that by (simp add: k unset missing_headers_def falsy)
  have 4: "validateGorgiasCredentials c
              = Inl (Error (''Missing required headers: '' @ join '', '' (missing_headers c)))
            \<and> (\<forall>v. fetch rt req \<noteq> Delegated v)"
    if "headers_get req ''X-Gorgias-Domain'' = Some [] \<or>
          headers_get req ''X-Gorgias-Email'' = Some [] \<or>
          headers_get req ''X-Gorgias-API-Key'' = Some []"
  proof -
    from that 1 2 3 have "missing_headers c \<noteq> []" by fastforce
    then have thrown: "validateGorgiasCredentials c
        = Inl (Error (''Missing required headers: '' @ join '', '' (missing_headers c)))"
      by (simp add: validateGorgiasCredentials_def Let_def)
    then have "fetch rt req \<noteq> Delegated v" for v
      by (simp add: fetch_def Let_def c_def)
    with thrown show ?thesis by simp
  qed
  have 5: "domain c \<noteq> Some []" "email c \<noteq> Some []" "apiKey c \<noteq> Some []"
    by (simp_all add: d e k or_undefined_never_empty)
  from 1 2 3 4 5 show ?thesis by blast
qed

theorem empty_header_is_absent_witness:
  "email (parseGorgiasCredentials request_empty_email) = None
   \<and> validateGorgiasCredentials (parseGorgiasCredentials request_empty_email)
       = Inl (Error ''Missing required headers: X-Gorgias-Email'')
   \<and> (\<forall>v. fetch sample_runtime request_empty_email \<noteq> Delegated v)"
proof -
  have h: "headers_get request_empty_email ''X-Gorgias-Email'' = Some []"
    by (simp add: request_empty_email_def)
  have m: "missing_headers (parseGorgiasCredentials request_empty_email) = [''X-Gorgias-Email'']"
    by (simp add: request_empty_email_def parseGorgiasCredentials_def or_undefined_def
        missing_headers_def falsy_member_def)
  from empty_header_is_absent [of request_empty_email sample_runtime] h m show ?thesis
    by simp
qed

section \<open>Properties of the request path\<close>









section \<open>Properties of the tools and the list operations\<close>

lemma stringify_object: "stringify rt n (JObj kvs) = Some (JSON_stringify rt n (JObj kvs))"
  by (simp add: stringify_def)

text \<open>
  C5. When \<open>actionsJson\<close> is no valid JSON, so that \<open>JSON.parse\<close> throws a \<open>SyntaxError\<close> with
  some message, the handler of the create-macro tool returns a response marked \<open>isError\<close>
  whose text is the JSON of an object with the member \<open>error\<close> set to \<open>Error: \<close> followed
  by that message; the record of upstream calls is what it was before, so no request was
  made; and the tool call ends with this response as its result, not with a failure
  handed to the protocol runtime.
\<close>

theorem create_macro_invalid_json:
  assumes "JSON_parse rt actionsJson = Inl msg"
  shows "create_macro_handler rt up credentials name actionsJson intent language log =
           (\<lparr> content = [\<lparr> ctype = ''text'',
                ctext = Some (JSON_stringify rt 2
                  (JObj [(''error'', JStr (''Error: '' @ msg)),
                         (''details'', formatErrorForLogging rt (SyntaxError msg))])) \<rparr>],
              isError = Some True \<rparr>, log)
       \<and> (zod_optional_string intent = Some intent \<and> zod_optional_string language = Some language \<longrightarrow>
          gorgias_create_macro rt up credentials
             (JObj [(''name'', JStr name), (''actionsJson'', JStr actionsJson),
                    (''intent'', intent), (''language'', language)]) log =
           (ToolResult \<lparr> content = [\<lparr> ctype = ''text'',
                ctext = Some (JSON_stringify rt 2
                  (JObj [(''error'', JStr (''Error: '' @ msg)),
                         (''details'', formatErrorForLogging rt (SyntaxError msg))])) \<rparr>],
              isError = Some True \<rparr>, log))"
proof -
  have handler: "create_macro_handler rt up credentials name actionsJson intent language log =
           (\<lparr> content = [\<lparr> ctype = ''text'',
                ctext = Some (JSON_stringify rt 2
                  (JObj [(''error'', JStr (''Error: '' @ msg)),
                         (''details'', formatErrorForLogging rt (SyntaxError msg))])) \<rparr>],
              isError = Some True \<rparr>, log)"
    using assms
    by (simp add: create_macro_handler_def formatError_def stringify_object Let_def)
  have args: "get_prop (JObj [(''name'', JStr name), (''actionsJson'', JStr actionsJson),
                    (''intent'', intent), (''language'', language)]) ''name'' = JStr name"
    "get_prop (JObj [(''name'', JStr name), (''actionsJson'', JStr actionsJson),
                    (''intent'', intent), (''language'', language)]) ''actionsJson'' = JStr actionsJson"
    "get_prop (JObj [(''name'', JStr name), (''actionsJson'', JStr actionsJson),
                    (''intent'', intent), (''language'', language)]) ''intent'' = intent"
    "get_prop (JObj [(''name'', JStr name), (''actionsJson'', JStr actionsJson),
                    (''intent'', intent), (''language'', language)]) ''language'' = language"
    by (simp_all add: get_prop_def)
  show ?thesis
    by (simp add: handler gorgias_create_macro_def args zod_string_def)
qed

theorem create_macro_invalid_json_witness:
  "gorgias_create_macro sample_runtime failing_upstream acme
     (JObj [(''name'', JStr ''Refund''), (''actionsJson'', JStr ''not json''),
            (''intent'', JUndefined), (''language'', JUndefined)]) [] =
     (ToolResult \<lparr> content = [\<lparr> ctype = ''text'',
          ctext = Some (sample_stringify 2
            (JObj [(''error'', JStr ''Error: Unexpected token''),
                   (''details'', JObj [(''message'', JStr ''Unexpected token'')])])) \<rparr>],
        isError = Some True \<rparr>, [])"
proof -
  have "JSON_parse sample_runtime ''not json'' = Inl ''Unexpected token''"
    by (simp add: sample_runtime_def sample_parse_def dq_def)
  from create_macro_invalid_json [OF this, of failing_upstream acme "''Refund''" JUndefined JUndefined "[]"]
  show ?thesis
    by (simp add: zod_optional_string_def sample_runtime_def)
qed

lemma build_query_ok:
  "(\<And>p. \<exists>t. toStr (opt_prop params p) = Inr t) \<Longrightarrow> \<exists>q'. build_query tbl params q = Inr q'"
proof (induction tbl arbitrary: q)
  case Nil
  then show ?case by simp
next
  case (Cons pn tbl)
  obtain p n where pn: "pn = (p, n)" by (cases pn)
  from Cons.prems obtain t where t: "toStr (opt_prop params p) = Inr t" by blast
  from Cons.IH [OF Cons.prems] show ?case
    by (simp add: pn t)
qed

lemma request_answered:
  "up \<lparr> req_url = getBaseUrl credentials @ fst endpoint, req_query = snd endpoint,
        req_method = opt_method options, req_headers = getAuthHeaders rt credentials,
        req_body = opt_body options \<rparr> = Inr r \<Longrightarrow>
   request rt up credentials endpoint options log =
     (on_response rt r,
      log @ [\<lparr> req_url = getBaseUrl credentials @ fst endpoint, req_query = snd endpoint,
                req_method = opt_method options, req_headers = getAuthHeaders rt credentials,
                req_body = opt_body options \<rparr>])"
  by (simp add: request_def Let_def)

lemma on_response_success:
  "response_ok r \<Longrightarrow> up_status r \<noteq> 204 \<Longrightarrow> JSON_parse rt (up_body r) = Inr v \<Longrightarrow>
   on_response rt r = Inr v"
  by (auto simp: on_response_def response_ok_def)

lemma paginated_empty:
  "\<not> nullish page \<Longrightarrow> get_prop page ''data'' = JArr [] \<Longrightarrow>
   opt_prop (get_prop page ''meta'') ''next_cursor'' = JUndefined \<Longrightarrow>
   paginated f page = Inr (JObj [(''items'', JArr []), (''nextCursor'', JUndefined)])"
  by (simp add: paginated_def array_map_def)

lemma unpaginated_empty:
  "\<not> nullish page \<Longrightarrow> get_prop page ''data'' = JArr [] \<Longrightarrow> unpaginated f page = Inr (JArr [])"
  by (simp add: unpaginated_def array_map_def)

lemma list_with_query_answered:
  assumes "\<forall>call. up call = Inr r" and "on_response rt r = Inr page"
    and "\<And>p. \<exists>t. toStr (opt_prop params p) = Inr t"
  shows "fst (list_with_query rt up credentials path tbl shape params log) = shape page"
proof -
  from build_query_ok [OF assms(3)] obtain q where q: "build_query tbl params [] = Inr q"
    by blast
  have "request rt up credentials (path, Some q) no_options log
      = (on_response rt r,
         log @ [\<lparr> req_url = getBaseUrl credentials @ path, req_query = Some q,
                   req_method = opt_method no_options, req_headers = getAuthHeaders rt credentials,
                   req_body = opt_body no_options \<rparr>])"
    using request_answered [of up credentials "(path, Some q)" no_options rt r log] assms(1)
    by simp
  then show ?thesis
    by (simp add: list_with_query_def q assms(2))
qed

lemma list_plain_answered:
  assumes "\<forall>call. up call = Inr r" and "on_response rt r = Inr page"
  shows "fst (list_plain rt up credentials path shape log) = shape page"
proof -
  have "request rt up credentials (path, None) no_options log
      = (on_response rt r,
         log @ [\<lparr> req_url = getBaseUrl credentials @ path, req_query = None,
                   req_method = opt_method no_options, req_headers = getAuthHeaders rt credentials,
                   req_body = opt_body no_options \<rparr>])"
    using request_answered [of up credentials "(path, None)" no_options rt r log] assms(1)
    by simp
  then show ?thesis
    by (simp add: list_plain_def assms(2))
qed

text \<open>
  C7, as the code has it. Let the upstream service answer with a status in 200..299 other
  than 204 and a JSON body that is an object with the empty array as \<open>data\<close> and no
  \<open>next_cursor\<close> under \<open>meta\<close>, and let the parameters of the call be ones that convert to
  strings. Then every list operation returns normally. The ten paginated ones (tickets,
  messages, customers, users, macros, rules, view items, satisfaction surveys, events,
  jobs) return \<open>{items: [], nextCursor: undefined}\<close>; the six that are not paginated
  (teams, tags, integrations, views, custom fields, widgets) return the empty array.
\<close>

theorem empty_page_is_success:
  assumes "\<forall>call. up call = Inr r"
    and "response_ok r" and "up_status r \<noteq> 204" and "JSON_parse rt (up_body r) = Inr page"
    and "\<not> nullish page" and "get_prop page ''data'' = JArr []"
    and "opt_prop (get_prop page ''meta'') ''next_cursor'' = JUndefined"
    and "\<forall>p. \<exists>t. toStr (opt_prop params p) = Inr t"
  shows "fst (list_operation op rt up credentials params log) =
           Inr (if is_paginated op
                then JObj [(''items'', JArr []), (''nextCursor'', JUndefined)]
                else JArr [])"
proof -
  have page: "on_response rt r = Inr page"
    using assms(2-4) by (rule on_response_success)
  have conv: "\<And>p. \<exists>t. toStr (opt_prop params p) = Inr t"
    using assms(8) by blast
  have pag: "paginated f page = Inr (JObj [(''items'', JArr []), (''nextCursor'', JUndefined)])" for f
    using assms(5-7) by (rule paginated_empty)
  have unp: "unpaginated f page = Inr (JArr [])" for f
    using assms(5,6) by (rule unpaginated_empty)
  note q = list_with_query_answered [OF assms(1) page conv]
  note pl = list_plain_answered [OF assms(1) page]
  show ?thesis
    by (cases op)
       (simp_all add: q pl pag unp listTickets_def listMessages_def listCustomers_def
          listUsers_def listTeams_def listTags_def listMacros_def listRules_def
          listIntegrations_def listViews_def listViewItems_def listSatisfactionSurveys_def
          listCustomFields_def listEvents_def listJobs_def listWidgets_def)
qed

lemma sample_page:
  "response_ok response_empty_page" "up_status response_empty_page \<noteq> 204"
  "JSON_parse sample_runtime (up_body response_empty_page) = Inr (JObj [(''data'', JArr [])])"
  "\<forall>call. empty_upstream call = Inr response_empty_page"
  by (simp_all add: response_empty_page_def response_ok_def sample_runtime_def sample_parse_def
      dq_def empty_upstream_def)

lemma sample_page_shape:
  "\<not> nullish (JObj [(''data'', JArr [])])"
  "get_prop (JObj [(''data'', JArr [])]) ''data'' = JArr []"
  "opt_prop (get_prop (JObj [(''data'', JArr [])]) ''meta'') ''next_cursor'' = JUndefined"
  by (simp_all add: get_prop_def opt_prop_def)

lemma sample_params_convert:
  "\<forall>p. \<exists>t. toStr (opt_prop (JObj [(''limit'', JNum 20)]) p) = Inr t"
  by (simp add: opt_prop_def get_prop_def)

theorem empty_page_is_success_witness:
  "fst (list_operation ListTickets sample_runtime empty_upstream acme (JObj [(''limit'', JNum 20)]) [])
     = Inr (JObj [(''items'', JArr []), (''nextCursor'', JUndefined)])
   \<and> fst (list_operation ListTeams sample_runtime empty_upstream acme (JObj [(''limit'', JNum 20)]) [])
     = Inr (JArr [])"
  using empty_page_is_success [OF sample_page(4) sample_page(1-3) sample_page_shape
          sample_params_convert, of ListTickets acme "[]"]
        empty_page_is_success [OF sample_page(4) sample_page(1-3) sample_page_shape
          sample_params_convert, of ListTeams acme "[]"]
  by simp

text \<open>
  C7 as stated fails for the list operations that are not paginated: on an empty page
  \<open>listTeams\<close> returns the empty array, not an object with \<open>items\<close> and \<open>nextCursor\<close>.
\<close>

theorem list_teams_empty_is_bare_array:
  "fst (list_operation ListTeams sample_runtime empty_upstream acme JUndefined []) = Inr (JArr [])
   \<and> fst (list_operation ListTeams sample_runtime empty_upstream acme JUndefined [])
       \<noteq> Inr (JObj [(''items'', JArr []), (''nextCursor'', JUndefined)])"
proof -
  have "fst (list_operation ListTeams sample_runtime empty_upstream acme JUndefined []) = Inr (JArr [])"
    using list_plain_answered [OF sample_page(4) on_response_success [OF sample_page(1-3)],
            of acme "''/teams''" "unpaginated mapTeam" "[]"]
    by (simp add: listTeams_def unpaginated_empty sample_page_shape)
  then show ?thesis by simp
qed

lemma map_of_set_param_same: "map_of (set_param k v q) k = Some v"
  by (induction q) auto

lemma map_of_set_param_other: "k \<noteq> k' \<Longrightarrow> map_of (set_param k' v q) k = map_of q k"
proof (induction q)
  case Nil
  then show ?case by simp
next
  case (Cons kv q)
  have "map_of (filter (\<lambda>kv. fst kv \<noteq> k') q) k = map_of q k"
    using Cons.prems by (induction q) auto
  with Cons show ?case by (cases kv) auto
qed

lemma build_query_keeps:
  "build_query tbl params q = Inr q' \<Longrightarrow> k \<notin> snd ` set tbl \<Longrightarrow> map_of q' k = map_of q k"
proof (induction tbl arbitrary: q)
  case Nil
  then show ?case by simp
next
  case (Cons pn tbl)
  obtain p n where pn: "pn = (p, n)" by (cases pn)
  from Cons.prems(2) pn have n: "k \<noteq> n" and rest: "k \<notin> snd ` set tbl" by auto
  show ?case
  proof (cases "truthy (opt_prop params p)")
    case True
    with Cons.prems(1) pn obtain v where v: "toStr (opt_prop params p) = Inr v"
      and q': "build_query tbl params (set_param n v q) = Inr q'"
      by (auto split: sum.splits)
    from Cons.IH [OF q' rest] n show ?thesis
      by (simp add: map_of_set_param_other)
  next
    case False
    with Cons.prems(1) pn have "build_query tbl params q = Inr q'" by simp
    from Cons.IH [OF this rest] show ?thesis .
  qed
qed

lemma limit_forwarded:
  assumes "opt_prop params ''limit'' = JNum n" and "n \<noteq> 0"
    and "build_query ((''limit'', ''limit'') # tbl) params [] = Inr q"
    and "''limit'' \<notin> snd ` set tbl"
  shows "map_of q ''limit'' = Some (String_int n)"
proof -
  from assms(1-3) have "build_query tbl params [(''limit'', String_int n)] = Inr q"
    by simp
  from build_query_keeps [OF this assms(4)] show ?thesis by simp
qed

lemma list_with_query_call:
  assumes "build_query tbl params [] = Inr q"
  shows "\<exists>res call. list_with_query rt up credentials path tbl shape params log = (res, log @ [call])
           \<and> req_url call = getBaseUrl credentials @ path \<and> req_query call = Some q"
proof -
  define call where "call = \<lparr> req_url = getBaseUrl credentials @ path, req_query = Some q,
      req_method = opt_method no_options, req_headers = getAuthHeaders rt credentials,
      req_body = opt_body no_options \<rparr>"
  have "\<exists>res. request rt up credentials (path, Some q) no_options log = (res, log @ [call])"
    by (cases "up call") (simp_all add: request_def call_def Let_def)
  then obtain res where "request rt up credentials (path, Some q) no_options log = (res, log @ [call])"
    by blast
  then have "\<exists>res'. list_with_query rt up credentials path tbl shape params log = (res', log @ [call])"
    by (cases res) (simp_all add: list_with_query_def assms)
  moreover have "req_url call = getBaseUrl credentials @ path \<and> req_query call = Some q"
    by (simp add: call_def)
  ultimately show ?thesis by blast
qed

lemma typed_arguments_convert:
  assumes "zod_optional_string a = Some cur" and "zod_optional_string b = Some mail"
  shows "\<exists>t. toStr (opt_prop (JObj [(''limit'', JNum n), (''cursor'', cur), (''email'', mail)]) p) = Inr t"
proof -
  from assms have "cur = JUndefined \<or> (\<exists>t. cur = JStr t)" "mail = JUndefined \<or> (\<exists>t. mail = JStr t)"
    by (auto simp: zod_optional_string_def split: jsv.splits)
  then show ?thesis
    by (auto simp: opt_prop_def get_prop_def)
qed

lemma list_with_limit_call:
  assumes "n \<noteq> 0" and "opt_prop params ''limit'' = JNum n"
    and "\<And>p. \<exists>t. toStr (opt_prop params p) = Inr t"
    and "''limit'' \<notin> snd ` set tbl"
  shows "\<exists>res call q.
           list_with_query rt up credentials path ((''limit'', ''limit'') # tbl) shape params log
             = (res, log @ [call])
           \<and> req_url call = getBaseUrl credentials @ path
           \<and> req_query call = Some q \<and> map_of q ''limit'' = Some (String_int n)"
proof -
  from build_query_ok [OF assms(3)] obtain q
    where q: "build_query ((''limit'', ''limit'') # tbl) params [] = Inr q"
    by blast
  from assms(2) assms(1) q assms(4) have "map_of q ''limit'' = Some (String_int n)"
    by (rule limit_forwarded)
  with list_with_query_call [OF q] show ?thesis by blast
qed

lemma list_plain_call:
  "\<exists>res call. list_plain rt up credentials path shape log = (res, log @ [call])
     \<and> req_query call = None"
proof -
  define call where "call = \<lparr> req_url = getBaseUrl credentials @ path, req_query = None,
      req_method = opt_method no_options, req_headers = getAuthHeaders rt credentials,
      req_body = opt_body no_options \<rparr>"
  have "\<exists>res. request rt up credentials (path, None) no_options log = (res, log @ [call])"
    by (cases "up call") (simp_all add: request_def call_def Let_def)
  then obtain res where "request rt up credentials (path, None) no_options log = (res, log @ [call])"
    by blast
  then have "\<exists>res'. list_plain rt up credentials path shape log = (res', log @ [call])"
    by (cases res) (simp_all add: list_plain_def)
  moreover have "req_query call = None"
    by (simp add: call_def)
  ultimately show ?thesis by blast
qed

lemma list_without_limit_call:
  assumes "\<And>p. \<exists>t. toStr (opt_prop params p) = Inr t" and "''limit'' \<notin> snd ` set tbl"
  shows "\<exists>res call q. list_with_query rt up credentials path tbl shape params log
             = (res, log @ [call])
           \<and> req_query call = Some q \<and> map_of q ''limit'' = None"
proof -
  from build_query_ok [OF assms(1)] obtain q where q: "build_query tbl params [] = Inr q"
    by blast
  from build_query_keeps [OF q assms(2)] have "map_of q ''limit'' = None" by simp
  with list_with_query_call [OF q] show ?thesis by blast
qed

lemma list_operation_limit:
  assumes "n \<noteq> 0" and "opt_prop params ''limit'' = JNum n"
    and "\<And>p. \<exists>t. toStr (opt_prop params p) = Inr t"
  shows "\<exists>res call. list_operation op rt up credentials params log = (res, log @ [call])
           \<and> (if is_paginated op
               then \<exists>q. req_query call = Some q \<and> map_of q ''limit'' = Some (String_int n)
               else \<forall>q. req_query call = Some q \<longrightarrow> map_of q ''limit'' = None)"
proof -
  note with_limit = list_with_limit_call [OF assms, of _ rt up credentials _ _ log]
  have paged: "\<exists>res call. list_with_query rt up credentials path ((''limit'', ''limit'') # tbl)
                 shape params log = (res, log @ [call])
         \<and> (\<exists>q. req_query call = Some q \<and> map_of q ''limit'' = Some (String_int n))"
    if "''limit'' \<notin> snd ` set tbl" for path tbl shape
    using with_limit [OF that, of path shape] by blast
  have bare: "\<exists>res call. list_plain rt up credentials path shape log = (res, log @ [call])
         \<and> (\<forall>q. req_query call = Some q \<longrightarrow> map_of q ''limit'' = None)"
    for path shape
    using list_plain_call [of rt up credentials path shape log] by auto
  have fields: "\<exists>res call. list_with_query rt up credentials path [(''objectType'', ''object_type'')]
                 shape params log = (res, log @ [call])
         \<and> (\<forall>q. req_query call = Some q \<longrightarrow> map_of q ''limit'' = None)"
    for path shape
    using list_without_limit_call [OF assms(3), of "[(''objectType'', ''object_type'')]"
        rt up credentials path shape log]
    by auto
  show ?thesis
  proof (cases op)
    case ListTickets
    then show ?thesis using paged by (simp add: listTickets_def)
  next
    case ListMessages
    then show ?thesis using paged by (simp add: listMessages_def)
  next
    case ListCustomers
    then show ?thesis using paged by (simp add: listCustomers_def)
  next
    case ListUsers
    then show ?thesis using paged by (simp add: listUsers_def)
  next
    case ListTeams
    then show ?thesis using bare by (simp add: listTeams_def)
  next
    case ListTags
    then show ?thesis using bare by (simp add: listTags_def)
  next
    case ListMacros
    then show ?thesis using paged by (simp add: listMacros_def)
  next
    case ListRules
    then show ?thesis using paged by (simp add: listRules_def)
  next
    case ListIntegrations
    then show ?thesis using bare by (simp add: listIntegrations_def)
  next
    case ListViews
    then show ?thesis using bare by (simp add: listViews_def)
  next
    case (ListViewItems viewId)
    then show ?thesis using paged by (simp add: listViewItems_def)
  next
    case ListSatisfactionSurveys
    then show ?thesis using paged by (simp add: listSatisfactionSurveys_def)
  next
    case ListCustomFields
    then show ?thesis using fields by (simp add: listCustomFields_def)
  next
    case ListEvents
    then show ?thesis using paged by (simp add: listEvents_def)
  next
    case ListJobs
    then show ?thesis using paged by (simp add: listJobs_def)
  next
    case ListWidgets
    then show ?thesis using bare by (simp add: listWidgets_def)
  qed
qed

text \<open>
  C1, as the code has it. The helper \<open>normalizePaginationParams\<close> clamps a limit above 100 to
  100, but no list operation calls it. The list-customers tool declares its limit as an
  integer from 1 to 100: a call with a larger limit is refused by the schema check, the
  handler does not run and nothing is sent upstream. When the tool does return a result,
  the limit it was given lies between 1 and 100 and exactly one upstream request was made,
  to \<open>/customers\<close>, carrying that limit unchanged. The client's \<open>listCustomers\<close> forwards any
  limit other than 0 as it is, and so does every list operation that returns a page: each
  makes one upstream request whose \<open>limit\<close> is the limit given. The list operations that
  return the bare array send no \<open>limit\<close> at all. The limit forwarded is stated for the
  integers within \<open>2^53\<close>, which \<open>String\<close> prints digit by digit.
\<close>

theorem limit_checked_not_clamped:
  "(100 < n \<longrightarrow>
      limit (normalizePaginationParams (Some \<lparr> limit = Some n, cursor = cur \<rparr>)
               PAGINATION_DEFAULTS_maxLimit) = Some 100)
   \<and> (100 < n \<and> map_of kvs ''limit'' = Some (JNum n) \<longrightarrow>
      gorgias_list_customers rt up credentials (JObj kvs) log = (InvalidArguments, log))
   \<and> (map_of kvs ''limit'' = Some (JNum n) \<and>
      gorgias_list_customers rt up credentials (JObj kvs) log = (ToolResult response, log') \<longrightarrow>
        1 \<le> n \<and> n \<le> 100 \<and>
        (\<exists>call q. log' = log @ [call] \<and> req_url call = getBaseUrl credentials @ ''/customers''
           \<and> req_query call = Some q \<and> map_of q ''limit'' = Some (String_int n)))
   \<and> (n \<noteq> 0 \<and> - (2 ^ 53) \<le> n \<and> n \<le> 2 ^ 53 \<and> opt_prop params ''limit'' = JNum n \<and>
      (\<forall>p. \<exists>t. toStr (opt_prop params p) = Inr t) \<longrightarrow>
        (\<exists>res call q. listCustomers rt up credentials params log = (res, log @ [call])
           \<and> req_url call = getBaseUrl credentials @ ''/customers''
           \<and> req_query call = Some q \<and> map_of q ''limit'' = Some (String_int n)))
   \<and> (n \<noteq> 0 \<and> - (2 ^ 53) \<le> n \<and> n \<le> 2 ^ 53 \<and> opt_prop params ''limit'' = JNum n \<and>
      (\<forall>p. \<exists>t. toStr (opt_prop params p) = Inr t) \<longrightarrow>
        (\<exists>res call. list_operation op rt up credentials params log = (res, log @ [call])
           \<and> (if is_paginated op
               then \<exists>q. req_query call = Some q \<and> map_of q ''limit'' = Some (String_int n)
               else \<forall>q. req_query call = Some q \<longrightarrow> map_of q ''limit'' = None)))"
proof -
  have helper: "100 < n \<longrightarrow>
      limit (normalizePaginationParams (Some \<lparr> limit = Some n, cursor = cur \<rparr>)
               PAGINATION_DEFAULTS_maxLimit) = Some 100"
    by (simp add: normalizePaginationParams_def limit_or_default_def
        PAGINATION_DEFAULTS_maxLimit_def)
  have refused: "100 < n \<and> map_of kvs ''limit'' = Some (JNum n) \<longrightarrow>
      gorgias_list_customers rt up credentials (JObj kvs) log = (InvalidArguments, log)"
    by (simp add: gorgias_list_customers_def get_prop_def zod_limit_def)
  have accepted: "map_of kvs ''limit'' = Some (JNum n) \<and>
      gorgias_list_customers rt up credentials (JObj kvs) log = (ToolResult response, log') \<longrightarrow>
        1 \<le> n \<and> n \<le> 100 \<and>
        (\<exists>call q. log' = log @ [call] \<and> req_url call = getBaseUrl credentials @ ''/customers''
           \<and> req_query call = Some q \<and> map_of q ''limit'' = Some (String_int n))"
  proof
    assume a: "map_of kvs ''limit'' = Some (JNum n) \<and>
        gorgias_list_customers rt up credentials (JObj kvs) log = (ToolResult response, log')"
    then have lim: "get_prop (JObj kvs) ''limit'' = JNum n"
      by (simp add: get_prop_def)
    from a lim obtain cur' mail format
      where range: "1 \<le> n \<and> n \<le> 100"
        and cur': "zod_optional_string (get_prop (JObj kvs) ''cursor'') = Some cur'"
        and mail: "zod_optional_string (get_prop (JObj kvs) ''email'') = Some mail"
        and run: "list_customers_handler rt up credentials n cur' mail format log = (response, log')"
      by (auto simp: gorgias_list_customers_def zod_limit_def split: option.splits if_splits prod.splits)
    let ?params = "JObj [(''limit'', JNum n), (''cursor'', cur'), (''email'', mail)]"
    have conv: "\<And>p. \<exists>t. toStr (opt_prop ?params p) = Inr t"
      using typed_arguments_convert [OF cur' mail] .
    from build_query_ok [OF conv] obtain q
      where q: "build_query [(''limit'', ''limit''), (''cursor'', ''cursor''), (''email'', ''email'')]
                  ?params [] = Inr q"
      by blast
    have "opt_prop ?params ''limit'' = JNum n"
      by (simp add: opt_prop_def get_prop_def)
    moreover from range have "n \<noteq> 0" by simp
    ultimately have forwarded: "map_of q ''limit'' = Some (String_int n)"
      using q by (rule limit_forwarded) simp
    from list_with_query_call [OF q] obtain res call
      where call: "listCustomers rt up credentials ?params log = (res, log @ [call])"
        "req_url call = getBaseUrl credentials @ ''/customers''" "req_query call = Some q"
      unfolding listCustomers_def by blast
    from run call(1) have "log' = log @ [call]"
      by (auto simp: list_customers_handler_def split: sum.splits)
    with range call(2,3) forwarded
    show "1 \<le> n \<and> n \<le> 100 \<and>
          (\<exists>call q. log' = log @ [call] \<and> req_url call = getBaseUrl credentials @ ''/customers''
             \<and> req_query call = Some q \<and> map_of q ''limit'' = Some (String_int n))"
      by blast
  qed
  have client: "n \<noteq> 0 \<and> - (2 ^ 53) \<le> n \<and> n \<le> 2 ^ 53 \<and> opt_prop params ''limit'' = JNum n \<and>
      (\<forall>p. \<exists>t. toStr (opt_prop params p) = Inr t) \<longrightarrow>
        (\<exists>res call q. listCustomers rt up credentials params log = (res, log @ [call])
           \<and> req_url call = getBaseUrl credentials @ ''/customers''
           \<and> req_query call = Some q \<and> map_of q ''limit'' = Some (String_int n))"
  proof
    assume a: "n \<noteq> 0 \<and> - (2 ^ 53) \<le> n \<and> n \<le> 2 ^ 53 \<and> opt_prop params ''limit'' = JNum n \<and>
      (\<forall>p. \<exists>t. toStr (opt_prop params p) = Inr t)"
    then have conv: "\<And>p. \<exists>t. toStr (opt_prop params p) = Inr t" by blast
    from build_query_ok [OF conv] obtain q
      where q: "build_query [(''limit'', ''limit''), (''cursor'', ''cursor''), (''email'', ''email'')]
                  params [] = Inr q"
      by blast
    from a have "opt_prop params ''limit'' = JNum n" "n \<noteq> 0" by simp_all
    then have forwarded: "map_of q ''limit'' = Some (String_int n)"
      using q by (rule limit_forwarded) simp
    from list_with_query_call [OF q] obtain res call
      where "listCustomers rt up credentials params log = (res, log @ [call])"
        "req_url call = getBaseUrl credentials @ ''/customers''" "req_query call = Some q"
      unfolding listCustomers_def by blast
    with forwarded
    show "\<exists>res call q. listCustomers rt up credentials params log = (res, log @ [call])
             \<and> req_url call = getBaseUrl credentials @ ''/customers''
             \<and> req_query call = Some q \<and> map_of q ''limit'' = Some (String_int n)"
      by blast
  qed
  have every: "n \<noteq> 0 \<and> - (2 ^ 53) \<le> n \<and> n \<le> 2 ^ 53 \<and> opt_prop params ''limit'' = JNum n \<and>
      (\<forall>p. \<exists>t. toStr (opt_prop params p) = Inr t) \<longrightarrow>
        (\<exists>res call. list_operation op rt up credentials params log = (res, log @ [call])
           \<and> (if is_paginated op
               then \<exists>q. req_query call = Some q \<and> map_of q ''limit'' = Some (String_int n)
               else \<forall>q. req_query call = Some q \<longrightarrow> map_of q ''limit'' = None))"
  proof
    assume a: "n \<noteq> 0 \<and> - (2 ^ 53) \<le> n \<and> n \<le> 2 ^ 53 \<and> opt_prop params ''limit'' = JNum n \<and>
      (\<forall>p. \<exists>t. toStr (opt_prop params p) = Inr t)"
    then have "n \<noteq> 0" and "opt_prop params ''limit'' = JNum n"
      and "\<And>p. \<exists>t. toStr (opt_prop params p) = Inr t"
      by blast+
    then show "\<exists>res call. list_operation op rt up credentials params log = (res, log @ [call])
           \<and> (if is_paginated op
               then \<exists>q. req_query call = Some q \<and> map_of q ''limit'' = Some (String_int n)
               else \<forall>q. req_query call = Some q \<longrightarrow> map_of q ''limit'' = None)"
      by (rule list_operation_limit)
  qed
  show ?thesis
    by (rule conjI [OF helper conjI [OF refused conjI [OF accepted conjI [OF client every]]]])
qed

lemma String_int_500: "String_int 500 = ''500''"
  by code_simp

lemma String_int_50: "String_int 50 = ''50''"
  by code_simp

theorem limit_checked_not_clamped_witness:
  "limit (normalizePaginationParams (Some \<lparr> limit = Some 500, cursor = None \<rparr>)
            PAGINATION_DEFAULTS_maxLimit) = Some 100
   \<and> gorgias_list_customers sample_runtime empty_upstream acme (JObj [(''limit'', JNum 500)]) []
       = (InvalidArguments, [])
   \<and> (\<exists>response call q.
         gorgias_list_customers sample_runtime empty_upstream acme (JObj [(''limit'', JNum 50)]) []
           = (ToolResult response, [call])
         \<and> req_query call = Some q \<and> map_of q ''limit'' = Some ''50'')
   \<and> (\<exists>res call q.
         listCustomers sample_runtime empty_upstream acme (JObj [(''limit'', JNum 500)]) []
           = (res, [call])
         \<and> req_query call = Some q \<and> map_of q ''limit'' = Some ''500'')
   \<and> (\<exists>res call q.
         list_operation ListTickets sample_runtime empty_upstream acme
           (JObj [(''limit'', JNum 500)]) [] = (res, [call])
         \<and> req_query call = Some q \<and> map_of q ''limit'' = Some ''500'')"
proof -
  have args500: "(100::int) < 500 \<and> map_of [(''limit'', JNum 500)] ''limit'' = Some (JNum 500)"
    by simp
  have run50: "\<exists>response log'.
      gorgias_list_customers sample_runtime empty_upstream acme (JObj [(''limit'', JNum 50)]) []
        = (ToolResult response, log')"
    by (simp add: gorgias_list_customers_def get_prop_def zod_limit_def zod_optional_string_def
        zod_format_def split: prod.splits)
  then obtain response log' where run:
    "gorgias_list_customers sample_runtime empty_upstream acme (JObj [(''limit'', JNum 50)]) []
        = (ToolResult response, log')"
    by blast
  have conv: "\<forall>p. \<exists>t. toStr (opt_prop (JObj [(''limit'', JNum 500)]) p) = Inr t"
    by (simp add: opt_prop_def get_prop_def)
  have lim: "opt_prop (JObj [(''limit'', JNum 500)]) ''limit'' = JNum 500"
    by (simp add: opt_prop_def get_prop_def)
  have safe: "- (2 ^ 53) \<le> (500::int)" "(500::int) \<le> 2 ^ 53"
    by simp_all
  note t500 = limit_checked_not_clamped
    [of 500 None "[(''limit'', JNum 500)]" sample_runtime empty_upstream acme "[]" undefined undefined
        "JObj [(''limit'', JNum 500)]" ListTickets]
  note t50 = limit_checked_not_clamped
    [of 50 None "[(''limit'', JNum 50)]" sample_runtime empty_upstream acme "[]" response log'
        "JObj [(''limit'', JNum 50)]" ListTickets]
  from t500 have 1: "limit (normalizePaginationParams (Some \<lparr> limit = Some 500, cursor = None \<rparr>)
            PAGINATION_DEFAULTS_maxLimit) = Some 100"
    by simp
  from t500 args500 have 2:
    "gorgias_list_customers sample_runtime empty_upstream acme (JObj [(''limit'', JNum 500)]) []
       = (InvalidArguments, [])"
    by simp
  from t50 run have 3: "\<exists>response call q.
         gorgias_list_customers sample_runtime empty_upstream acme (JObj [(''limit'', JNum 50)]) []
           = (ToolResult response, [call])
         \<and> req_query call = Some q \<and> map_of q ''limit'' = Some ''50''"
    by (auto simp: String_int_50)
  from t500 conv lim safe have 4: "\<exists>res call q.
         listCustomers sample_runtime empty_upstream acme (JObj [(''limit'', JNum 500)]) []
           = (res, [call])
         \<and> req_query call = Some q \<and> map_of q ''limit'' = Some ''500''"
    by (auto simp: String_int_500)
  from t500 conv lim safe have 5: "\<exists>res call q.
         list_operation ListTickets sample_runtime empty_upstream acme
           (JObj [(''limit'', JNum 500)]) [] = (res, [call])
         \<and> req_query call = Some q \<and> map_of q ''limit'' = Some ''500''"
    by (auto simp: String_int_500)
  from 1 2 3 4 5 show ?thesis by simp
qed

text \<open>
  C1 as stated fails: the list-customers tool called with the limit 500 ends with the
  refusal of its arguments and no upstream request, and the client's \<open>listCustomers\<close> called
  with the limit 500 sends \<open>limit=500\<close>.
\<close>

theorem limit_500_refused_or_forwarded:
  "gorgias_list_customers sample_runtime empty_upstream acme (JObj [(''limit'', JNum 500)]) []
     = (InvalidArguments, [])
   \<and> map (\<lambda>call. (req_url call, req_query call))
       (snd (listCustomers sample_runtime empty_upstream acme (JObj [(''limit'', JNum 500)]) []))
     = [(''https://acme.gorgias.com/api/customers'', Some [(''limit'', ''500'')])]"
proof -
  have 1: "gorgias_list_customers sample_runtime empty_upstream acme (JObj [(''limit'', JNum 500)]) []
     = (InvalidArguments, [])"
    by (simp add: gorgias_list_customers_def get_prop_def zod_limit_def)
  have q: "build_query [(''limit'', ''limit''), (''cursor'', ''cursor''), (''email'', ''email'')]
             (JObj [(''limit'', JNum 500)]) [] = Inr [(''limit'', ''500'')]"
    by (simp add: opt_prop_def get_prop_def String_int_500)
  have 2: "map (\<lambda>call. (req_url call, req_query call))
       (snd (listCustomers sample_runtime empty_upstream acme (JObj [(''limit'', JNum 500)]) []))
     = [(''https://acme.gorgias.com/api/customers'', Some [(''limit'', ''500'')])]"
    unfolding listCustomers_def list_with_query_def q
    by (simp add: request_def Let_def getBaseUrl_def acme_def empty_upstream_def
        split: prod.splits sum.splits)
  from 1 2 show ?thesis by simp
qed

section \<open>Properties of the wire mapping\<close>


























lemma wire_member_Each:
  "get_prop r i = JArr ys \<Longrightarrow> wire_member r (Each i w sub) = [(w, JArr (map (to_wire sub) ys))]"
  by simp















section \<open>Properties of the formatter\<close>

lemma plain_own_prop: "plain v \<Longrightarrow> own_prop v k = Some x \<Longrightarrow> plain x"
proof (cases v)
  case (JObj kvs)
  assume "plain v" "own_prop v k = Some x"
  with JObj have "(k, x) \<in> set kvs" "list_all (\<lambda>kv. plain (snd kv)) kvs"
    by (auto dest: map_of_SomeD)
  then show ?thesis by (auto simp: list_all_iff)
next
  case (JArr xs)
  assume "plain v" "own_prop v k = Some x"
  with JArr show ?thesis
    by (auto simp: list_all_iff split: if_splits option.splits)
next
  case (JStr t)
  assume "own_prop v k = Some x"
  with JStr show ?thesis
    by (auto split: if_splits option.splits)
qed auto

lemma plain_get_prop: "plain v \<Longrightarrow> plain (get_prop v k)"
  by (auto simp: get_prop_def split: option.splits dest: plain_own_prop)

lemma plain_opt_prop: "plain v \<Longrightarrow> plain (opt_prop v k)"
  by (simp add: opt_prop_def plain_get_prop)

lemma plain_or_js: "plain a \<Longrightarrow> plain b \<Longrightarrow> plain (or_js a b)"
  by (simp add: or_js_def)

lemma plain_formatDate: "plain v \<Longrightarrow> plain (formatDate rt v)"
  by (simp add: formatDate_def split: option.splits)

lemma plain_yes_no: "plain (yes_no v)"
  by (simp add: yes_no_def)

lemma template_ok:
  "list_all (\<lambda>p. case p of Lit t \<Rightarrow> True | Sub v \<Rightarrow> plain v) ps \<Longrightarrow> \<exists>t. template ps = Inr t"
proof (induction ps)
  case Nil
  then show ?case by simp
next
  case (Cons p ps)
  then obtain r where r: "template ps = Inr r" by auto
  show ?case
  proof (cases p)
    case (Lit t)
    with r show ?thesis by simp
  next
    case (Sub v)
    with Cons.prems have "plain v" by simp
    then obtain t where "toStr v = Inr t" using plain_toStr by blast
    with r Sub show ?thesis by simp
  qed
qed

lemma truncate_or_dash_ok:
  "text_or_falsy v \<Longrightarrow> \<exists>t. truncate_or_dash rt v n = Inr (JStr t)"
  by (cases v) (auto simp: text_or_falsy_def truncate_or_dash_def truncate_def)

lemma display_name_ok: "plain e \<Longrightarrow> \<exists>v. display_name e = Inr v \<and> plain v"
proof (cases "truthy (get_prop e ''name'')")
  case True
  assume "plain e"
  with True show ?thesis
    by (simp add: display_name_def plain_get_prop)
next
  case False
  assume e: "plain e"
  have "\<exists>t. template [Sub (or_js (get_prop e ''firstname'') (JStr [])), Lit '' '',
                       Sub (or_js (get_prop e ''lastname'') (JStr []))] = Inr t"
    by (rule template_ok) (simp add: e plain_get_prop plain_or_js)
  then obtain t where "template [Sub (or_js (get_prop e ''firstname'') (JStr [])), Lit '' '',
                       Sub (or_js (get_prop e ''lastname'') (JStr []))] = Inr t"
    by blast
  with False show ?thesis
    by (simp add: display_name_def or_js_def)
qed

lemmas plain_parts = plain_get_prop plain_opt_prop plain_or_js plain_formatDate plain_yes_no

lemma ticket_row_ok:
  assumes "\<not> nullish x" and "plain x" and "text_or_falsy (get_prop x ''subject'')"
  shows "\<exists>t. ticket_row rt x = Inr t"
proof -
  from truncate_or_dash_ok [OF assms(3)] obtain u
    where u: "truncate_or_dash rt (get_prop x ''subject'') 40 = Inr (JStr u)" by blast
  show ?thesis
    unfolding ticket_row_def Let_def using assms(1)
    by (simp add: u del: template.simps) (rule template_ok, simp add: assms(2) plain_parts)
qed

lemma message_row_ok:
  assumes "\<not> nullish x" and "plain x"
  shows "\<exists>t. message_row rt x = Inr t"
  unfolding message_row_def Let_def using assms(1)
  by (simp del: template.simps) (rule template_ok, simp add: assms(2) plain_parts)

lemma customer_row_ok:
  assumes "\<not> nullish x" and "plain x"
  shows "\<exists>t. customer_row rt x = Inr t"
proof -
  from display_name_ok [OF assms(2)] obtain v where v: "display_name x = Inr v" "plain v"
    by blast
  show ?thesis
    unfolding customer_row_def Let_def using assms(1)
    by (simp add: v del: template.simps) (rule template_ok, simp add: assms(2) v plain_parts)
qed

lemma user_row_ok:
  assumes "\<not> nullish x" and "plain x"
  shows "\<exists>t. user_row rt x = Inr t"
proof -
  from display_name_ok [OF assms(2)] obtain v where v: "display_name x = Inr v" "plain v"
    by blast
  show ?thesis
    unfolding user_row_def Let_def using assms(1)
    by (simp add: v del: template.simps) (rule template_ok, simp add: assms(2) v plain_parts)
qed

lemma team_row_ok:
  assumes "\<not> nullish x" and "plain x" and "text_or_falsy (get_prop x ''description'')"
  shows "\<exists>t. team_row rt x = Inr t"
proof -
  from truncate_or_dash_ok [OF assms(3)] obtain u
    where u: "truncate_or_dash rt (get_prop x ''description'') 30 = Inr (JStr u)" by blast
  show ?thesis
    unfolding team_row_def Let_def using assms(1)
    by (simp add: u del: template.simps) (rule template_ok, simp add: assms(2) plain_parts)
qed

lemma tag_row_ok:
  assumes "\<not> nullish x" and "plain x" and "text_or_falsy (get_prop x ''description'')"
  shows "\<exists>t. tag_row rt x = Inr t"
proof -
  from truncate_or_dash_ok [OF assms(3)] obtain u
    where u: "truncate_or_dash rt (get_prop x ''description'') 30 = Inr (JStr u)" by blast
  show ?thesis
    unfolding tag_row_def Let_def using assms(1)
    by (simp add: u del: template.simps) (rule template_ok, simp add: assms(2) plain_parts)
qed

lemma macro_row_ok:
  assumes "\<not> nullish x" and "plain x"
  shows "\<exists>t. macro_row rt x = Inr t"
  unfolding macro_row_def Let_def using assms(1)
  by (simp del: template.simps) (rule template_ok, simp add: assms(2) plain_parts)

lemma rule_row_ok:
  assumes "\<not> nullish x" and "plain x"
  shows "\<exists>t. rule_row rt x = Inr t"
  unfolding rule_row_def Let_def using assms(1)
  by (simp del: template.simps split del: if_split)
     (rule template_ok, simp add: assms(2) plain_parts)

lemma survey_row_ok:
  assumes "\<not> nullish x" and "plain x"
  shows "\<exists>t. survey_row rt x = Inr t"
proof -
  have "\<exists>u. (if get_prop x ''score'' \<noteq> JNull then toStr (get_prop x ''score'') else Inr ''-'') = Inr u"
    using plain_toStr [OF plain_get_prop [OF assms(2)], of "''score''"] by auto
  then obtain u
    where u: "(if get_prop x ''score'' \<noteq> JNull then toStr (get_prop x ''score'') else Inr ''-'') = Inr u"
    by blast
  show ?thesis
    unfolding survey_row_def Let_def u using assms(1)
    by (simp del: template.simps split del: if_split)
       (rule template_ok, simp add: assms(2) plain_parts)
qed

lemma table_lines_ok:
  "(\<And>x. x \<in> set items \<Longrightarrow> \<exists>t. row x = Inr t) \<Longrightarrow> \<exists>t. table_lines header row items = Inr t"
proof -
  assume "\<And>x. x \<in> set items \<Longrightarrow> \<exists>t. row x = Inr t"
  then have "\<exists>rows. collect row items = Inr rows" by (rule collect_Inr)
  then show ?thesis by (auto simp: table_lines_def)
qed

lemma cell_ok: "\<not> nullish x \<Longrightarrow> plain x \<Longrightarrow> \<exists>t. cell rt x k = Inr t"
  by (auto simp: cell_def split: option.splits dest: plain_own_prop plain_toStr)

lemma generic_row_ok: "\<not> nullish x \<Longrightarrow> plain x \<Longrightarrow> \<exists>t. generic_row rt keys x = Inr t"
proof -
  assume "\<not> nullish x" "plain x"
  then have "\<exists>vs. collect (cell rt x) keys = Inr vs"
    by (intro collect_Inr cell_ok)
  then show ?thesis by (auto simp: generic_row_def)
qed

lemma Object_keys_ok: "\<not> nullish x \<Longrightarrow> \<exists>ks. Object_keys x = Inr ks"
  by (cases x) (simp_all add: Object_keys_def)

lemma formatGenericTable_ok:
  assumes "list_all (\<lambda>x. \<not> nullish x) items" and "list_all plain items"
  shows "\<exists>t. formatGenericTable rt items = Inr t"
proof (cases items)
  case Nil
  then show ?thesis by (simp add: formatGenericTable_def)
next
  case (Cons first others)
  with assms(1) have "\<not> nullish first" by simp
  then obtain ks where ks: "Object_keys first = Inr ks" using Object_keys_ok by blast
  have "\<exists>t. table_lines header (generic_row rt (take 5 ks)) items = Inr t" for header
  proof (rule table_lines_ok)
    fix x assume "x \<in> set items"
    with assms have "\<not> nullish x" "plain x" by (auto simp: list_all_iff)
    then show "\<exists>t. generic_row rt (take 5 ks) x = Inr t" by (rule generic_row_ok)
  qed
  then show ?thesis
    unfolding formatGenericTable_def Cons [symmetric] using Cons by (simp add: ks Let_def)
qed

lemma row_ok_nullish: "list_all (row_ok entityType) items \<Longrightarrow> list_all (\<lambda>x. \<not> nullish x) items"
  by (simp add: list_all_iff row_ok_def)

lemma items_table_ok:
  assumes "list_all (row_ok entityType) items" and "list_all plain items"
  shows "\<exists>t. items_table rt entityType items = Inr t"
proof -
  have present: "\<not> nullish x" and pl: "plain x" and ok: "row_ok entityType x"
    if "x \<in> set items" for x
    using that assms by (simp_all add: list_all_iff row_ok_def)
  have subject: "text_or_falsy (get_prop x ''subject'')"
    if "x \<in> set items" "entityType = ''tickets''" for x
    using ok [OF that(1)] that(2) unfolding row_ok_def by blast
  have description: "text_or_falsy (get_prop x ''description'')"
    if "x \<in> set items" "entityType = ''teams'' \<or> entityType = ''tags''" for x
    using ok [OF that(1)] that(2) unfolding row_ok_def by blast
  have t_tickets: "\<exists>t. formatTicketsTable rt items = Inr t" if "entityType = ''tickets''"
    unfolding formatTicketsTable_def
  proof (rule table_lines_ok)
    fix x assume x: "x \<in> set items"
    from present [OF x] pl [OF x] subject [OF x that]
    show "\<exists>t. ticket_row rt x = Inr t" by (rule ticket_row_ok)
  qed
  have t_messages: "\<exists>t. formatMessagesTable rt items = Inr t"
    unfolding formatMessagesTable_def
  proof (rule table_lines_ok)
    fix x assume x: "x \<in> set items"
    from present [OF x] pl [OF x] show "\<exists>t. message_row rt x = Inr t" by (rule message_row_ok)
  qed
  have t_customers: "\<exists>t. formatCustomersTable rt items = Inr t"
    unfolding formatCustomersTable_def
  proof (rule table_lines_ok)
    fix x assume x: "x \<in> set items"
    from present [OF x] pl [OF x] show "\<exists>t. customer_row rt x = Inr t" by (rule customer_row_ok)
  qed
  have t_users: "\<exists>t. formatUsersTable rt items = Inr t"
    unfolding formatUsersTable_def
  proof (rule table_lines_ok)
    fix x assume x: "x \<in> set items"
    from present [OF x] pl [OF x] show "\<exists>t. user_row rt x = Inr t" by (rule user_row_ok)
  qed
  have t_teams: "\<exists>t. formatTeamsTable rt items = Inr t" if "entityType = ''teams''"
    unfolding formatTeamsTable_def
  proof (rule table_lines_ok)
    fix x assume x: "x \<in> set items"
    from that have "entityType = ''teams'' \<or> entityType = ''tags''" by (rule disjI1)
    from present [OF x] pl [OF x] description [OF x this]
    show "\<exists>t. team_row rt x = Inr t" by (rule team_row_ok)
  qed
  have t_tags: "\<exists>t. formatTagsTable rt items = Inr t" if "entityType = ''tags''"
    unfolding formatTagsTable_def
  proof (rule table_lines_ok)
    fix x assume x: "x \<in> set items"
    from that have "entityType = ''teams'' \<or> entityType = ''tags''" by (rule disjI2)
    from present [OF x] pl [OF x] description [OF x this]
    show "\<exists>t. tag_row rt x = Inr t" by (rule tag_row_ok)
  qed
  have t_macros: "\<exists>t. formatMacrosTable rt items = Inr t"
    unfolding formatMacrosTable_def
  proof (rule table_lines_ok)
    fix x assume x: "x \<in> set items"
    from present [OF x] pl [OF x] show "\<exists>t. macro_row rt x = Inr t" by (rule macro_row_ok)
  qed
  have t_rules: "\<exists>t. formatRulesTable rt items = Inr t"
    unfolding formatRulesTable_def
  proof (rule table_lines_ok)
    fix x assume x: "x \<in> set items"
    from present [OF x] pl [OF x] show "\<exists>t. rule_row rt x = Inr t" by (rule rule_row_ok)
  qed
  have t_surveys: "\<exists>t. formatSatisfactionSurveysTable rt items = Inr t"
    unfolding formatSatisfactionSurveysTable_def
  proof (rule table_lines_ok)
    fix x assume x: "x \<in> set items"
    from present [OF x] pl [OF x] show "\<exists>t. survey_row rt x = Inr t" by (rule survey_row_ok)
  qed
  have t_generic: "\<exists>t. formatGenericTable rt items = Inr t"
    using row_ok_nullish [OF assms(1)] assms(2) by (rule formatGenericTable_ok)
  consider (tickets) "entityType = ''tickets''" | (messages) "entityType = ''messages''"
    | (customers) "entityType = ''customers''" | (users) "entityType = ''users''"
    | (teams) "entityType = ''teams''" | (tags) "entityType = ''tags''"
    | (macros) "entityType = ''macros''" | (rules) "entityType = ''rules''"
    | (surveys) "entityType = ''satisfaction_surveys''"
    | (other) "entityType \<noteq> ''tickets''" "entityType \<noteq> ''messages''"
        "entityType \<noteq> ''customers''" "entityType \<noteq> ''users''" "entityType \<noteq> ''teams''"
        "entityType \<noteq> ''tags''" "entityType \<noteq> ''macros''" "entityType \<noteq> ''rules''"
        "entityType \<noteq> ''satisfaction_surveys''"
    by blast
  then show ?thesis
  proof cases
    case tickets
    from t_tickets [OF tickets] show ?thesis
      by (simp add: items_table_def tickets)
  next
    case messages
    from t_messages show ?thesis
      by (simp add: items_table_def messages)
  next
    case customers
    from t_customers show ?thesis
      by (simp add: items_table_def customers)
  next
    case users
    from t_users show ?thesis
      by (simp add: items_table_def users)
  next
    case teams
    from t_teams [OF teams] show ?thesis
      by (simp add: items_table_def teams)
  next
    case tags
    from t_tags [OF tags] show ?thesis
      by (simp add: items_table_def tags)
  next
    case macros
    from t_macros show ?thesis
      by (simp add: items_table_def macros)
  next
    case rules
    from t_rules show ?thesis
      by (simp add: items_table_def rules)
  next
    case surveys
    from t_surveys show ?thesis
      by (simp add: items_table_def surveys)
  next
    case other
    from t_generic show ?thesis
      by (simp add: items_table_def other)
  qed
qed

lemma formatPaginatedAsMarkdown_ok:
  assumes "plain data" and "get_prop data ''items'' = JArr items"
    and "list_all (row_ok entityType) items"
  shows "\<exists>t. formatPaginatedAsMarkdown rt data entityType = Inr t"
proof -
  from assms(1) have "plain (get_prop data ''items'')" by (rule plain_get_prop)
  with assms(2) have "list_all plain items" by simp
  with assms(3) obtain t where t: "items_table rt entityType items = Inr t"
    using items_table_ok by blast
  from assms(1) have "plain (get_prop data ''nextCursor'')" by (rule plain_get_prop)
  then have "\<exists>h. template [Lit ''**More available:** Yes (cursor: '', Lit [CHR 0x60],
      Sub (get_prop data ''nextCursor''), Lit [CHR 0x60], Lit '')''] = Inr h"
    by (intro template_ok) simp
  then obtain h where h: "template [Lit ''**More available:** Yes (cursor: '', Lit [CHR 0x60],
      Sub (get_prop data ''nextCursor''), Lit [CHR 0x60], Lit '')''] = Inr h" ..
  show ?thesis
    unfolding formatPaginatedAsMarkdown_def assms(2) h
    by (simp add: Let_def t)
qed

lemma entry_lines_ok: "plain (snd kv) \<Longrightarrow> \<exists>ls. entry_lines rt kv = Inr ls"
  by (cases "snd kv") (simp_all add: entry_lines_def)

lemma formatObjectAsMarkdown_ok:
  assumes "list_all (\<lambda>kv. plain (snd kv)) kvs"
  shows "\<exists>t. formatObjectAsMarkdown rt kvs entityType = Inr t"
proof -
  have "\<exists>ls. collect (entry_lines rt) kvs = Inr ls"
  proof (rule collect_Inr)
    fix kv assume "kv \<in> set kvs"
    with assms have "plain (snd kv)" by (simp add: list_all_iff)
    then show "\<exists>ls. entry_lines rt kv = Inr ls" by (rule entry_lines_ok)
  qed
  then show ?thesis by (auto simp: formatObjectAsMarkdown_def)
qed

lemma formatAsMarkdown_ok:
  assumes "renderable entityType data"
  shows "\<exists>t. formatAsMarkdown rt data entityType = Inr t"
proof (cases "isPaginatedResponse data")
  case True
  then obtain kvs where d: "data = JObj kvs"
    by (cases data) (simp_all add: isPaginatedResponse_def)
  with True obtain v where v: "map_of kvs ''items'' = Some v"
    by (cases "map_of kvs ''items''") (simp_all add: isPaginatedResponse_def)
  with True d obtain items where "v = JArr items"
    by (cases v) (simp_all add: isPaginatedResponse_def)
  with v have i: "map_of kvs ''items'' = Some (JArr items)" by simp
  from d i have g: "get_prop data ''items'' = JArr items" by (simp add: get_prop_def)
  from assms d i have "plain data" "list_all (row_ok entityType) items"
    by (simp_all add: renderable_def)
  then have "\<exists>t. formatPaginatedAsMarkdown rt data entityType = Inr t"
    using g by (intro formatPaginatedAsMarkdown_ok)
  with True show ?thesis by (simp add: formatAsMarkdown_def)
next
  case False
  from assms have p: "plain data" by (simp add: renderable_def)
  show ?thesis
  proof (cases data)
    case (JArr xs)
    with assms have "list_all (\<lambda>x. \<not> nullish x) xs" "list_all plain xs"
      by (simp_all add: renderable_def)
    then have "\<exists>t. formatGenericTable rt xs = Inr t" by (rule formatGenericTable_ok)
    with False JArr show ?thesis by (simp add: formatAsMarkdown_def formatArrayAsMarkdown_def)
  next
    case (JObj kvs)
    with p have "list_all (\<lambda>kv. plain (snd kv)) kvs" by simp
    then have "\<exists>t. formatObjectAsMarkdown rt kvs entityType = Inr t"
      by (rule formatObjectAsMarkdown_ok)
    with False JObj show ?thesis by (simp add: formatAsMarkdown_def)
  qed (use False in \<open>simp_all add: formatAsMarkdown_def\<close>)
qed

text \<open>
  C8. \<open>formatResponse\<close> returns a response with a text and throws nothing for the JSON format
  on every value but \<open>undefined\<close>, and for the markdown format on every renderable value:
  one without a member \<open>toString\<close> of its own anywhere, whose items, when it is a page or
  an array, are not \<open>null\<close> or \<open>undefined\<close> and carry a string, or nothing, where the table
  of their entity type truncates (the subject of a ticket, the description of a team or
  a tag). The entity type is arbitrary.
\<close>

theorem formatResponse_total:
  assumes "format = Markdown \<longrightarrow> renderable entityType data"
    and "format = Json \<longrightarrow> data \<noteq> JUndefined"
  shows "\<exists>t. formatResponse rt data format entityType = Inr (text_response (Some t))"
proof (cases format)
  case Json
  with assms(2) show ?thesis by (auto simp: formatResponse_def stringify_def)
next
  case Markdown
  with assms(1) have "renderable entityType data" by simp
  then obtain t where "formatAsMarkdown rt data entityType = Inr t"
    using formatAsMarkdown_ok by blast
  with Markdown show ?thesis by (auto simp: formatResponse_def)
qed

theorem formatResponse_total_witness:
  "renderable ''tickets'' ticket_page
   \<and> (\<exists>t. formatResponse sample_runtime ticket_page Markdown ''tickets''
            = Inr (text_response (Some t)))"
  using formatResponse_total [of Markdown "''tickets''" ticket_page sample_runtime]
  by (simp add: renderable_def ticket_page_def row_ok_def text_or_falsy_def get_prop_def)

text \<open>
  C8, as the specification words it, for every serializable value: the markdown format
  throws on the array \<open>[null]\<close>, where the generic table asks for the keys of its first
  element, and on a page of tickets whose subject is the number 5, which has no
  \<open>substring\<close>.
\<close>

theorem markdown_throws_on_serializable_values:
  "formatResponse sample_runtime (JArr [JNull]) Markdown ''tickets''
     = Inl (TypeError ''Cannot convert undefined or null to object'')
   \<and> formatResponse sample_runtime
         (JObj [(''items'', JArr [JObj [(''subject'', JNum 5)]])]) Markdown ''tickets''
     = Inl (TypeError ''str.substring is not a function'')"
  by code_simp

end
